theory Spec2Isabelle
  imports Main
begin

section \<open>Values exchanged with the libraries\<close>

text \<open>
  \<^verbatim>\<open>Json::Value\<close> of the JSON library. The default-constructed value is the
  null value; the client code only stores, returns and compares such values.
\<close>

datatype Json =
    JNull
  | JBool bool
  | JInt int
  | JString string
  | JArray "Json list"
  | JObject "(string \<times> Json) list"

text \<open>
  Modelled from the spec: \<^verbatim>\<open>RpcServer::Error\<close> is declared in \<^verbatim>\<open>rpcserver.hpp\<close>, which
  is not among the sources. A Backend Error carries a numeric code, a message and
  optional structured data. The two-argument form used by the client leaves the data at
  the null value.
\<close>

datatype Error = Error (GetCode: int) (GetMessage: string) (GetData: Json)

definition Error2 :: "int \<Rightarrow> string \<Rightarrow> Error" where
  "Error2 c msg = Error c msg JNull"

text \<open>\<^verbatim>\<open>jsonrpc::Errors::ERROR_RPC_INTERNAL_ERROR\<close> of the JSON-RPC library.\<close>

definition ERROR_RPC_INTERNAL_ERROR :: int where
  "ERROR_RPC_INTERNAL_ERROR = - 32603"

text \<open>
  \<^verbatim>\<open>gloox::JID\<close>: user name, server and resource. \<^verbatim>\<open>full ()\<close> is the bare
  address followed by \<^verbatim>\<open>/resource\<close> when there is a resource; the library
  compares two addresses by their full strings; \<^verbatim>\<open>bareJID ()\<close> is the address
  without its resource.
\<close>

record JID =
  username :: string
  server :: string
  resource :: string

definition bare :: "JID \<Rightarrow> string" where
  "bare j = (if username j = [] then server j else username j @ ''@'' @ server j)"

definition full :: "JID \<Rightarrow> string" where
  "full j = (if resource j = [] then bare j else bare j @ ''/'' @ resource j)"

definition bareJID :: "JID \<Rightarrow> JID" where
  "bareJID j = j\<lparr>resource := []\<rparr>"

definition JID_eq :: "JID \<Rightarrow> JID \<Rightarrow> bool" where
  "JID_eq a b = (full a = full b)"

definition emptyJID :: JID where
  "emptyJID = \<lparr>username = [], server = [], resource = []\<rparr>"

section \<open>Timed condition variable\<close>

text \<open>
  Clock readings are natural numbers (milliseconds of the steady clock). Each reading of
  \<^verbatim>\<open>Clock::now ()\<close> is an input of the model.
\<close>

definition DEFAULT_TIMEOUT :: nat where
  "DEFAULT_TIMEOUT = 3000"

definition WAITFORCHANGE_TIMEOUT :: nat where
  "WAITFORCHANGE_TIMEOUT = 5000"

record TimedConditionVariable =
  endTime :: nat

definition TimedConditionVariable_new :: "nat \<Rightarrow> nat \<Rightarrow> TimedConditionVariable" where
  "TimedConditionVariable_new now timeout = \<lparr>endTime = now + timeout\<rparr>"

definition IsTimedOut :: "TimedConditionVariable \<Rightarrow> nat \<Rightarrow> bool" where
  "IsTimedOut c now = (now \<ge> endTime c)"

section \<open>Ongoing RPC calls and their result handler\<close>

datatype State = WAITING | UNAVAILABLE | RESPONSE_SUCCESS | RESPONSE_ERROR

record OngoingRpcCall =
  cv :: TimedConditionVariable
  state :: State
  call_serverJid :: JID
  result :: Json
  error :: Error

definition OngoingRpcCall_new :: "nat \<Rightarrow> nat \<Rightarrow> OngoingRpcCall" where
  "OngoingRpcCall_new now t =
     \<lparr>cv = TimedConditionVariable_new now t, state = WAITING, call_serverJid = emptyJID,
      result = JNull, error = Error2 0 []\<rparr>"

text \<open>
  The parts of an incoming IQ stanza the handler looks at: its subtype, its stanza
  error (if any), its sender and its \<^verbatim>\<open>RpcResponse\<close> extension (if any). Of the
  stanza errors only "service unavailable" is told apart.
\<close>

datatype IqType = IqGet | IqSet | IqResult | IqError | IqInvalid

datatype StanzaError = StanzaErrorServiceUnavailable | StanzaErrorOther nat

text \<open>
  Modelled from the spec: \<^verbatim>\<open>RpcResponse\<close> is declared in \<^verbatim>\<open>private/stanzas.hpp\<close>,
  which is not among the sources. An RPC Response is either a success with a result or
  a failure with a numeric code, a message and optional data, and has a validity check;
  the fields are the accessors the handler calls.
\<close>

record RpcResponse =
  IsValid :: bool
  IsSuccess :: bool
  GetResult :: Json
  GetErrorCode :: int
  GetErrorMessage :: string
  GetErrorData :: Json

record IQ =
  iq_subtype :: IqType
  iq_error :: "StanzaError option"
  iq_from :: JID
  iq_RpcResponse :: "RpcResponse option"

text \<open>
  \<^verbatim>\<open>RpcResultHandler::handleIqID\<close>. The result is the call after the handler has run
  and whether the handler called \<^verbatim>\<open>call->cv.Notify ()\<close>.
\<close>

definition handleIqID :: "OngoingRpcCall \<Rightarrow> IQ \<Rightarrow> OngoingRpcCall \<times> bool" where
  "handleIqID call iq =
     (if state call \<noteq> WAITING then (call, False)
      else if iq_subtype iq = IqError \<and> iq_error iq = Some StanzaErrorServiceUnavailable
        then (call\<lparr>state := UNAVAILABLE\<rparr>, True)
      else if iq_subtype iq \<noteq> IqResult then (call, False)
      else (case iq_RpcResponse iq of
              None \<Rightarrow> (call, False)
            | Some ext \<Rightarrow>
                if \<not> IsValid ext then (call, False)
                else if IsSuccess ext
                  then (call\<lparr>state := RESPONSE_SUCCESS, result := GetResult ext\<rparr>, True)
                else (call\<lparr>state := RESPONSE_ERROR,
                            error := Error (GetErrorCode ext) (GetErrorMessage ext)
                                       (GetErrorData ext)\<rparr>, True)))"

fun handleIqs :: "OngoingRpcCall \<Rightarrow> IQ list \<Rightarrow> OngoingRpcCall" where
  "handleIqs call [] = call"
| "handleIqs call (iq # iqs) = handleIqs (fst (handleIqID call iq)) iqs"

text \<open>
  What a call can end in: it returns a value, it throws an \<^verbatim>\<open>RpcServer::Error\<close>, or
  the process aborts (a failed \<^verbatim>\<open>CHECK\<close> or \<^verbatim>\<open>LOG (FATAL)\<close>).
\<close>

datatype Fatal = CheckFailed | LogFatal

datatype Outcome = Returns Json | Throws Error | Aborts Fatal

section \<open>Notification state\<close>

text \<open>
  Modelled from the spec: \<^verbatim>\<open>NotificationType\<close> is declared in a header that is not
  among the sources. It is given by the application: its type name and the function
  from a full state to a comparable state id.
\<close>

record NotificationType =
  GetType :: string
  ExtractStateId :: "Json \<Rightarrow> Json"

record NotificationState =
  notification :: NotificationType
  hasState :: bool
  ns_state :: Json

definition NotificationState_new :: "NotificationType \<Rightarrow> NotificationState" where
  "NotificationState_new n = \<lparr>notification = n, hasState = False, ns_state = JNull\<rparr>"

text \<open>
  Modelled from the spec: \<^verbatim>\<open>NotificationUpdate\<close> is declared in
  \<^verbatim>\<open>private/stanzas.hpp\<close>, which is not among the sources. A Notification Update is a
  type name and a state payload, with a validity check. A pubsub item is given as the
  callback sees it: its \<^verbatim>\<open>update\<close> child (if any), parsed as such an update.
\<close>

record NotificationUpdate =
  upd_IsValid :: bool
  upd_GetType :: string
  upd_GetState :: Json

record Tag =
  findChild_update :: "NotificationUpdate option"

text \<open>
  The callback of \<^verbatim>\<open>NotificationState::GetItemCallback\<close>, with whether it called
  \<^verbatim>\<open>cv.notify_all ()\<close>.
\<close>

definition ItemCallback :: "NotificationState \<Rightarrow> Tag \<Rightarrow> NotificationState \<times> bool" where
  "ItemCallback ns t =
     (case findChild_update t of
        None \<Rightarrow> (ns, False)
      | Some upd \<Rightarrow>
          if \<not> upd_IsValid upd then (ns, False)
          else if upd_GetType upd \<noteq> GetType (notification ns) then (ns, False)
          else (ns\<lparr>hasState := True, ns_state := upd_GetState upd\<rparr>, True))"

fun ItemCallbacks :: "NotificationState \<Rightarrow> Tag list \<Rightarrow> NotificationState" where
  "ItemCallbacks ns [] = ns"
| "ItemCallbacks ns (t # ts) = ItemCallbacks (fst (ItemCallback ns t)) ts"

text \<open>
  \<^verbatim>\<open>NotificationState::WaitForChange\<close>. The third argument lists the items whose
  callbacks run while the caller is blocked in \<^verbatim>\<open>cv.wait_for\<close> (none if the wait ends
  by its timeout or spuriously). The result says whether the caller blocked, and with
  which bound, the value returned and the notification state afterwards.
\<close>

datatype Blocking = NoWait | WaitFor nat

definition NotificationState_WaitForChange ::
    "NotificationState \<Rightarrow> Json \<Rightarrow> Tag list \<Rightarrow> Blocking \<times> Json \<times> NotificationState" where
  "NotificationState_WaitForChange ns known during =
     (if hasState ns \<and> known \<noteq> ExtractStateId (notification ns) (ns_state ns)
        then (NoWait, ns_state ns, ns)
      else (let ns' = ItemCallbacks ns during
            in (WaitFor WAITFORCHANGE_TIMEOUT, ns_state ns', ns')))"

text \<open>
  The notification states a client can be in: the constructor's, and what item callbacks
  make of it.
\<close>

inductive reachable_state :: "NotificationState \<Rightarrow> bool" where
  reachable_new: "reachable_state (NotificationState_new n)"
| reachable_item: "reachable_state ns \<Longrightarrow> reachable_state (fst (ItemCallback ns t))"

section \<open>The client implementation\<close>

text \<open>
  The subtypes of a presence stanza. Modelled from the spec:
  \<^verbatim>\<open>SupportedNotifications\<close> is declared in \<^verbatim>\<open>private/stanzas.hpp\<close>, which is not
  among the sources; it is the pubsub service address and the map from notification
  type name to node name. Of a presence the handler reads its subtype, its sender,
  whether it has a \<^verbatim>\<open>PongMessage\<close> extension, and its \<^verbatim>\<open>SupportedNotifications\<close>
  extension (if any).
\<close>

datatype PresenceType =
  Available | Chat | Away | DND | XA | Unavailable | Probe | PresenceError | PresenceInvalid

record SupportedNotifications =
  GetService :: string
  GetNotifications :: "string \<rightharpoonup> string"

record Presence =
  p_subtype :: PresenceType
  p_from :: JID
  p_PongMessage :: bool
  p_SupportedNotifications :: "SupportedNotifications option"

text \<open>The stanzas the client sends through \<^verbatim>\<open>RunWithClient\<close>.\<close>

datatype Stanza =
    PingMessageTo string
  | PresenceAvailableTo JID
  | IqGetTo JID string Json

text \<open>
  \<^verbatim>\<open>Client::Impl\<close>, with the two fields of the owning \<^verbatim>\<open>Client\<close> it reads.
  \<^verbatim>\<open>states\<close> lists the entries of the map in the order the map iterates them.
  \<^verbatim>\<open>ongoingPing\<close> is what \<^verbatim>\<open>ongoingPing.lock ()\<close> yields: the ping some caller still
  waits for, if any. \<^verbatim>\<open>subscribeCalls\<close> holds one entry (node, notification type) per
  subscription thread; \<^verbatim>\<open>pubsub\<close> is the service of the current pubsub instance and
  \<^verbatim>\<open>sent\<close> the stanzas sent so far.
\<close>

record Impl =
  client_serverJid :: string
  client_timeout :: nat
  fullServerJid :: JID
  subscribeCalls :: "(string \<times> string) list"
  ongoingPing :: "TimedConditionVariable option"
  states :: "(string \<times> NotificationState) list"
  pubsub :: "string option"
  sent :: "Stanza list"

definition HasFullServerJid :: "Impl \<Rightarrow> bool" where
  "HasFullServerJid impl = (resource (fullServerJid impl) \<noteq> [])"

definition FinishSubscriptions :: "Impl \<Rightarrow> Impl" where
  "FinishSubscriptions impl = impl\<lparr>subscribeCalls := []\<rparr>"

definition AddPubSub :: "Impl \<Rightarrow> string \<Rightarrow> Impl" where
  "AddPubSub impl service = impl\<lparr>pubsub := Some service\<rparr>"

text \<open>
  The first loop of \<^verbatim>\<open>handlePresence\<close> over \<^verbatim>\<open>states\<close>: false when the loop returns
  from the handler (no extension, or a type that is not advertised).
\<close>

fun supportsAll :: "SupportedNotifications option \<Rightarrow> (string \<times> NotificationState) list \<Rightarrow> bool" where
  "supportsAll sn [] = True"
| "supportsAll sn (entry # rest) =
     (case sn of
        None \<Rightarrow> False
      | Some s \<Rightarrow>
          (case GetNotifications s (fst entry) of
             None \<Rightarrow> False
           | Some node \<Rightarrow> supportsAll sn rest))"

text \<open>The second loop: one subscription thread per entry, or a failed \<^verbatim>\<open>CHECK\<close>.\<close>

fun subscribeAll ::
    "(string \<rightharpoonup> string) \<Rightarrow> (string \<times> NotificationState) list \<Rightarrow> Fatal + (string \<times> string) list" where
  "subscribeAll n [] = Inr []"
| "subscribeAll n (entry # rest) =
     (case n (fst entry) of
        None \<Rightarrow> Inl CheckFailed
      | Some node \<Rightarrow>
          (case subscribeAll n rest of
             Inl f \<Rightarrow> Inl f
           | Inr ts \<Rightarrow> Inr ((node, fst entry) # ts)))"

text \<open>
  \<^verbatim>\<open>Client::Impl::handlePresence\<close>. The result is the implementation state afterwards
  and whether a waiting ping was notified, or the failed \<^verbatim>\<open>CHECK\<close>.
\<close>

definition handlePresence :: "Impl \<Rightarrow> Presence \<Rightarrow> Fatal + (Impl \<times> bool)" where
  "handlePresence impl p =
     (case p_subtype p of
        Available \<Rightarrow>
          if \<not> p_PongMessage p then Inr (impl, False)
          else if \<not> supportsAll (p_SupportedNotifications p) (states impl)
            then Inr (impl, False)
          else if HasFullServerJid impl then Inr (impl, ongoingPing impl \<noteq> None)
          else
            (let impl1 = impl\<lparr>fullServerJid := p_from p,
                              sent := sent impl @ [PresenceAvailableTo (p_from p)]\<rparr>
             in if states impl1 = [] then Inr (impl1, ongoingPing impl1 \<noteq> None)
                else (case p_SupportedNotifications p of
                        None \<Rightarrow> Inl CheckFailed
                      | Some sn \<Rightarrow>
                          (let impl2 = AddPubSub (FinishSubscriptions impl1) (GetService sn)
                           in case subscribeAll (GetNotifications sn) (states impl2) of
                                Inl f \<Rightarrow> Inl f
                              | Inr ts \<Rightarrow>
                                  Inr (impl2\<lparr>subscribeCalls := subscribeCalls impl2 @ ts\<rparr>,
                                       ongoingPing impl2 \<noteq> None))))
      | Unavailable \<Rightarrow>
          if JID_eq (p_from p) (fullServerJid impl)
            then Inr (impl\<lparr>fullServerJid := bareJID (fullServerJid impl)\<rparr>, False)
          else Inr (impl, False)
      | _ \<Rightarrow> Inr (impl, False))"

fun handlePresences :: "Impl \<Rightarrow> Presence list \<Rightarrow> Fatal + Impl" where
  "handlePresences impl [] = Inr impl"
| "handlePresences impl (p # ps) =
     (case handlePresence impl p of
        Inl f \<Rightarrow> Inl f
      | Inr r \<Rightarrow> handlePresences (fst r) ps)"

text \<open>
  The wait loop of \<^verbatim>\<open>TryEnsureFullServerJid\<close>. Each entry of the schedule is one
  iteration: the clock reading inside \<^verbatim>\<open>ping->Wait\<close>, the presences handled while the
  wait has released the lock (the wait is skipped, and nothing handled, when the ping
  has timed out already), and the clock reading of \<^verbatim>\<open>ping->IsTimedOut ()\<close> after the
  wait. \<^verbatim>\<open>None\<close> means that the caller is still waiting when the schedule ends.
\<close>

fun pingWait ::
    "TimedConditionVariable \<Rightarrow> Impl \<Rightarrow> (nat \<times> Presence list \<times> nat) list \<Rightarrow> (Fatal + Impl) option" where
  "pingWait ping impl [] = None"
| "pingWait ping impl ((nowWait, ps, nowCheck) # rest) =
     (case (if IsTimedOut ping nowWait then Inr impl else handlePresences impl ps) of
        Inl f \<Rightarrow> Some (Inl f)
      | Inr impl' \<Rightarrow>
          if IsTimedOut ping nowCheck then Some (Inr impl')
          else if HasFullServerJid impl' then Some (Inr impl')
          else pingWait ping impl' rest)"

text \<open>
  \<^verbatim>\<open>Client::Impl::TryEnsureFullServerJid\<close>. \<^verbatim>\<open>now\<close> is the clock reading when a new
  ping is created. A ping created by this caller has no other owner, so it is gone
  (\<^verbatim>\<open>ongoingPing\<close> expires) when the caller returns; a ping joined stays with its owner.
\<close>

definition TryEnsureFullServerJid ::
    "Impl \<Rightarrow> nat \<Rightarrow> (nat \<times> Presence list \<times> nat) list \<Rightarrow> (Fatal + Impl) option" where
  "TryEnsureFullServerJid impl now schedule =
     (if HasFullServerJid impl then Some (Inr impl)
      else (case ongoingPing impl of
              None \<Rightarrow>
                (let ping = TimedConditionVariable_new now (client_timeout impl);
                     impl1 = impl\<lparr>sent := sent impl @ [PingMessageTo (client_serverJid impl)],
                                  ongoingPing := Some ping\<rparr>
                 in case pingWait ping impl1 schedule of
                      None \<Rightarrow> None
                    | Some (Inl f) \<Rightarrow> Some (Inl f)
                    | Some (Inr impl') \<Rightarrow> Some (Inr (impl'\<lparr>ongoingPing := None\<rparr>)))
            | Some ping \<Rightarrow> pingWait ping impl schedule))"

text \<open>
  The wait loop of \<^verbatim>\<open>ForwardMethod\<close>. Each entry of the schedule is one iteration: the
  IQ responses handled before the caller reads the call's state under the call's lock,
  and the clock reading of \<^verbatim>\<open>call->cv.IsTimedOut ()\<close>. \<^verbatim>\<open>None\<close> means that the caller
  is still waiting when the schedule ends.
\<close>

fun callWait :: "OngoingRpcCall \<Rightarrow> (IQ list \<times> nat) list \<Rightarrow> Outcome option" where
  "callWait call [] = None"
| "callWait call ((iqs, now) # rest) =
     (let call' = handleIqs call iqs
      in case state call' of
           RESPONSE_SUCCESS \<Rightarrow> Some (Returns (result call'))
         | RESPONSE_ERROR \<Rightarrow> Some (Throws (error call'))
         | UNAVAILABLE \<Rightarrow>
             Some (Throws (Error2 ERROR_RPC_INTERNAL_ERROR ''selected server is unavailable''))
         | WAITING \<Rightarrow>
             if IsTimedOut (cv call') now
               then Some (Throws (Error2 ERROR_RPC_INTERNAL_ERROR
                                    (''timeout waiting for result from ''
                                       @ full (call_serverJid call'))))
             else callWait call' rest)"

text \<open>
  \<^verbatim>\<open>Client::Impl::ForwardMethod\<close>: the discovery with its clock reading and schedule,
  then the call with its own. The result is the outcome of the call and the
  implementation state afterwards.
\<close>

definition ForwardMethod ::
    "Impl \<Rightarrow> string \<Rightarrow> Json \<Rightarrow> nat \<Rightarrow> (nat \<times> Presence list \<times> nat) list \<Rightarrow>
     nat \<Rightarrow> (IQ list \<times> nat) list \<Rightarrow> (Outcome \<times> Impl) option" where
  "ForwardMethod impl method params pingNow pingSchedule callNow callSchedule =
     (case TryEnsureFullServerJid impl pingNow pingSchedule of
        None \<Rightarrow> None
      | Some (Inl f) \<Rightarrow> Some (Aborts f, impl)
      | Some (Inr impl1) \<Rightarrow>
          if \<not> HasFullServerJid impl1
            then Some (Throws (Error2 ERROR_RPC_INTERNAL_ERROR
                                 (''could not discover full server JID for ''
                                    @ client_serverJid impl1)), impl1)
          else
            (let call = (OngoingRpcCall_new callNow (client_timeout impl1))
                          \<lparr>call_serverJid := fullServerJid impl1\<rparr>;
                 impl2 = impl1\<lparr>sent := sent impl1
                                    @ [IqGetTo (fullServerJid impl1) method params]\<rparr>
             in case callWait call callSchedule of
                  None \<Rightarrow> None
                | Some out \<Rightarrow> Some (out, impl2)))"

section \<open>The client\<close>

text \<open>
  Modelled from the spec: \<^verbatim>\<open>Client\<close> is declared in \<^verbatim>\<open>client.hpp\<close>, which is not among
  the sources. Its fields are those the code reads and writes: the server address, the
  timeout, the registered notification types by name and the implementation object,
  which exists while the client is connected. The constructor sets the default timeout.
\<close>

record Client =
  serverJid :: string
  timeout :: nat
  notifications :: "string \<rightharpoonup> NotificationType"
  impl :: "Impl option"

definition Client_new :: "string \<Rightarrow> Client" where
  "Client_new srv =
     \<lparr>serverJid = srv, timeout = DEFAULT_TIMEOUT, notifications = Map.empty, impl = None\<rparr>"

text \<open>
  \<^verbatim>\<open>Client::AddNotification\<close>: both \<^verbatim>\<open>CHECK\<close>s abort the process; \<^verbatim>\<open>emplace\<close> inserts
  only where the key is new.
\<close>

definition AddNotification :: "Client \<Rightarrow> NotificationType \<Rightarrow> Fatal + Client" where
  "AddNotification c n =
     (if impl c \<noteq> None then Inl CheckFailed
      else (let type = GetType n
            in if notifications c type \<noteq> None then Inl CheckFailed
               else Inr (c\<lparr>notifications := (notifications c)(type \<mapsto> n)\<rparr>)))"

section \<open>The receive loop\<close>

text \<open>\<^verbatim>\<open>gloox::ConnectionError\<close>, the result of \<^verbatim>\<open>client.recv\<close>.\<close>

datatype ConnectionError =
    ConnNoError
  | ConnStreamError
  | ConnStreamVersionError
  | ConnStreamClosed
  | ConnProxyAuthRequired
  | ConnProxyAuthFailed
  | ConnProxyNoSupportedAuth
  | ConnIoError
  | ConnParseError
  | ConnConnectionRefused
  | ConnDnsError
  | ConnOutOfMemory
  | ConnNoSupportedAuth
  | ConnTlsFailed
  | ConnTlsNotAvailable
  | ConnCompressionFailed
  | ConnAuthenticationFailed
  | ConnUserDisconnected
  | ConnNotConnected

text \<open>\<^verbatim>\<open>XmppClient::Receive\<close>, as a function of what \<^verbatim>\<open>client.recv (0)\<close> returns.\<close>

definition Receive :: "ConnectionError \<Rightarrow> Fatal + bool" where
  "Receive res =
     (case res of
        ConnNotConnected \<Rightarrow> Inr False
      | ConnStreamClosed \<Rightarrow> Inr False
      | ConnNoError \<Rightarrow> Inr True
      | _ \<Rightarrow> Inl LogFatal)"

text \<open>
  The receive loop started by \<^verbatim>\<open>XmppClient::Connect\<close>. Each entry of the schedule is
  one iteration: the value of \<^verbatim>\<open>stopLoop\<close> the loop reads and what \<^verbatim>\<open>client.recv\<close>
  returns. \<^verbatim>\<open>None\<close> means that the loop is still running when the schedule ends.
\<close>

fun recvLoop :: "(bool \<times> ConnectionError) list \<Rightarrow> (Fatal + unit) option" where
  "recvLoop [] = None"
| "recvLoop ((stopLoop, res) # rest) =
     (if stopLoop then Some (Inr ())
      else (case Receive res of
              Inl f \<Rightarrow> Some (Inl f)
            | Inr continue \<Rightarrow> if \<not> continue then Some (Inr ()) else recvLoop rest))"

section \<open>Auxiliary facts\<close>

lemma handleIqID_not_waiting: "state call \<noteq> WAITING \<Longrightarrow> handleIqID call iq = (call, False)"
  by (simp add: handleIqID_def)

lemma handleIqs_not_waiting: "state call \<noteq> WAITING \<Longrightarrow> handleIqs call iqs = call"
  by (induction iqs) (simp_all add: handleIqID_not_waiting)

lemma handleIqID_error_response:
  assumes "state call = WAITING" "iq_subtype iq = IqResult" "iq_RpcResponse iq = Some ext"
    "IsValid ext" "\<not> IsSuccess ext"
  shows "handleIqID call iq =
    (call\<lparr>state := RESPONSE_ERROR,
          error := Error (GetErrorCode ext) (GetErrorMessage ext) (GetErrorData ext)\<rparr>, True)"
  using assms by (simp add: handleIqID_def)

lemma subscribeAll_ok:
  "supportsAll (Some sn) sts \<Longrightarrow> \<exists>ts. subscribeAll (GetNotifications sn) sts = Inr ts"
  by (induction sts) (auto split: option.splits)

lemma supportsAll_None: "supportsAll None sts \<Longrightarrow> sts = []"
  by (cases sts) simp_all

lemma handlePresence_no_abort: "handlePresence im p \<noteq> Inl f"
proof (cases "p_subtype p")
  case Available
  show ?thesis
  proof (cases "p_SupportedNotifications p")
    case None
    then show ?thesis using Available supportsAll_None[of "states im"]
      by (auto simp: handlePresence_def Let_def)
  next
    case (Some sn)
    then show ?thesis using Available subscribeAll_ok[of sn "states im"]
      by (auto simp: handlePresence_def Let_def AddPubSub_def FinishSubscriptions_def)
  qed
qed (simp_all add: handlePresence_def)

lemma handlePresences_no_abort: "handlePresences im ps \<noteq> Inl f"
proof (induction ps arbitrary: im)
  case Nil show ?case by simp
next
  case (Cons p ps)
  show ?case using handlePresence_no_abort[of im p] Cons
    by (cases "handlePresence im p") auto
qed

lemma pingWait_no_abort: "pingWait ping im sched \<noteq> Some (Inl f)"
proof (induction sched arbitrary: im)
  case Nil show ?case by simp
next
  case (Cons w sched)
  obtain a ps b where w: "w = (a, ps, b)" by (cases w)
  show ?case
  proof (cases "IsTimedOut ping a")
    case True
    then show ?thesis using Cons w by simp
  next
    case False
    then show ?thesis using Cons w handlePresences_no_abort[of im ps]
      by (cases "handlePresences im ps") auto
  qed
qed

lemma TryEnsure_no_abort: "TryEnsureFullServerJid im now sched \<noteq> Some (Inl f)"
  using pingWait_no_abort
  by (auto simp: TryEnsureFullServerJid_def Let_def split: option.splits sum.splits)

lemma handleIqID_cases:
  assumes "state call = WAITING"
  shows "handleIqID call iq = (call, False)
    \<or> (iq_subtype iq = IqError \<and> iq_error iq = Some StanzaErrorServiceUnavailable
        \<and> handleIqID call iq = (call\<lparr>state := UNAVAILABLE\<rparr>, True))
    \<or> (\<exists>ext. iq_subtype iq = IqResult \<and> iq_RpcResponse iq = Some ext \<and> IsValid ext
        \<and> IsSuccess ext
        \<and> handleIqID call iq = (call\<lparr>state := RESPONSE_SUCCESS, result := GetResult ext\<rparr>, True))
    \<or> (\<exists>ext. iq_subtype iq = IqResult \<and> iq_RpcResponse iq = Some ext \<and> IsValid ext
        \<and> \<not> IsSuccess ext
        \<and> handleIqID call iq =
            (call\<lparr>state := RESPONSE_ERROR,
                  error := Error (GetErrorCode ext) (GetErrorMessage ext) (GetErrorData ext)\<rparr>,
             True))"
  using assms by (auto simp: handleIqID_def split: option.splits)

lemma handleIqs_cases:
  assumes "state call = WAITING"
  shows "handleIqs call iqs = call
    \<or> handleIqs call iqs = call\<lparr>state := UNAVAILABLE\<rparr>
    \<or> (\<exists>iq ext. iq \<in> set iqs \<and> iq_subtype iq = IqResult \<and> iq_RpcResponse iq = Some ext
          \<and> IsValid ext \<and> IsSuccess ext
          \<and> handleIqs call iqs = call\<lparr>state := RESPONSE_SUCCESS, result := GetResult ext\<rparr>)
    \<or> (\<exists>iq ext. iq \<in> set iqs \<and> iq_subtype iq = IqResult \<and> iq_RpcResponse iq = Some ext
          \<and> IsValid ext \<and> \<not> IsSuccess ext
          \<and> handleIqs call iqs =
              call\<lparr>state := RESPONSE_ERROR,
                   error := Error (GetErrorCode ext) (GetErrorMessage ext) (GetErrorData ext)\<rparr>)"
  using assms
proof (induction iqs)
  case Nil
  show ?case by simp
next
  case (Cons iq iqs)
  from handleIqID_cases[OF Cons.prems, of iq] show ?case
  proof (elim disjE exE conjE)
    assume "handleIqID call iq = (call, False)"
    then show ?thesis using Cons by auto
  next
    assume "handleIqID call iq = (call\<lparr>state := UNAVAILABLE\<rparr>, True)"
    then show ?thesis by (simp add: handleIqs_not_waiting)
  next
    fix ext
    assume "iq_subtype iq = IqResult" "iq_RpcResponse iq = Some ext" "IsValid ext" "IsSuccess ext"
      "handleIqID call iq = (call\<lparr>state := RESPONSE_SUCCESS, result := GetResult ext\<rparr>, True)"
    then show ?thesis by (auto simp: handleIqs_not_waiting)
  next
    fix ext
    assume "iq_subtype iq = IqResult" "iq_RpcResponse iq = Some ext" "IsValid ext" "\<not> IsSuccess ext"
      "handleIqID call iq =
            (call\<lparr>state := RESPONSE_ERROR,
                  error := Error (GetErrorCode ext) (GetErrorMessage ext) (GetErrorData ext)\<rparr>,
             True)"
    then show ?thesis by (auto simp: handleIqs_not_waiting)
  qed
qed

lemma callWait_outcomes:
  assumes "state call = WAITING" "callWait call sched = Some out"
  shows "out = Throws (Error2 ERROR_RPC_INTERNAL_ERROR ''selected server is unavailable'')
    \<or> out = Throws (Error2 ERROR_RPC_INTERNAL_ERROR
                      (''timeout waiting for result from '' @ full (call_serverJid call)))
    \<or> (\<exists>iqs now iq ext. (iqs, now) \<in> set sched \<and> iq \<in> set iqs \<and> iq_subtype iq = IqResult
          \<and> iq_RpcResponse iq = Some ext \<and> IsValid ext
          \<and> out = (if IsSuccess ext then Returns (GetResult ext)
                    else Throws (Error (GetErrorCode ext) (GetErrorMessage ext)
                                   (GetErrorData ext))))"
  using assms
proof (induction sched)
  case Nil
  then show ?case by simp
next
  case (Cons w sched)
  obtain iqs now where w: "w = (iqs, now)" by (cases w)
  from handleIqs_cases[OF Cons.prems(1), of iqs] show ?case
  proof (elim disjE exE conjE)
    assume same: "handleIqs call iqs = call"
    show ?thesis
    proof (cases "IsTimedOut (cv call) now")
      case True
      then show ?thesis using Cons.prems same w by simp
    next
      case False
      then have "callWait call sched = Some out" using Cons.prems same w by simp
      from Cons.IH[OF Cons.prems(1) this] show ?thesis
      proof (elim disjE exE conjE)
        fix iqs' now' iq ext
        assume a: "(iqs', now') \<in> set sched" "iq \<in> set iqs'" "iq_subtype iq = IqResult"
          "iq_RpcResponse iq = Some ext" "IsValid ext"
          "out = (if IsSuccess ext then Returns (GetResult ext)
                    else Throws (Error (GetErrorCode ext) (GetErrorMessage ext)
                                   (GetErrorData ext)))"
        from a(1) have "(iqs', now') \<in> set (w # sched)" by simp
        with a(2-) show ?thesis by blast
      qed simp_all
    qed
  next
    assume "handleIqs call iqs = call\<lparr>state := UNAVAILABLE\<rparr>"
    then show ?thesis using Cons.prems w by simp
  next
    fix iq ext
    assume "iq \<in> set iqs" "iq_subtype iq = IqResult" "iq_RpcResponse iq = Some ext" "IsValid ext"
      "IsSuccess ext" "handleIqs call iqs = call\<lparr>state := RESPONSE_SUCCESS, result := GetResult ext\<rparr>"
    then show ?thesis using Cons.prems w by (intro disjI2) (simp, blast)
  next
    fix iq ext
    assume "iq \<in> set iqs" "iq_subtype iq = IqResult" "iq_RpcResponse iq = Some ext" "IsValid ext"
      "\<not> IsSuccess ext" "handleIqs call iqs =
              call\<lparr>state := RESPONSE_ERROR,
                   error := Error (GetErrorCode ext) (GetErrorMessage ext) (GetErrorData ext)\<rparr>"
    then show ?thesis using Cons.prems w by (intro disjI2) (simp, blast)
  qed
qed

lemma handlePresence_preserves:
  assumes "handlePresence im p = Inr (im', n)"
  shows "client_serverJid im' = client_serverJid im \<and> client_timeout im' = client_timeout im
    \<and> ongoingPing im' = ongoingPing im \<and> states im' = states im
    \<and> (\<exists>xs. sent im' = sent im @ xs)"
  using assms
  by (cases "p_subtype p")
     (auto simp: handlePresence_def Let_def AddPubSub_def FinishSubscriptions_def
           split: if_splits option.splits sum.splits)

lemma handlePresences_preserves:
  assumes "handlePresences im ps = Inr im'"
  shows "client_serverJid im' = client_serverJid im \<and> client_timeout im' = client_timeout im
    \<and> ongoingPing im' = ongoingPing im \<and> states im' = states im
    \<and> (\<exists>xs. sent im' = sent im @ xs)"
  using assms
proof (induction ps arbitrary: im)
  case Nil
  then show ?case by simp
next
  case (Cons p ps)
  then obtain im1 n where h: "handlePresence im p = Inr (im1, n)"
    by (cases "handlePresence im p") auto
  with Cons.prems have "handlePresences im1 ps = Inr im'" by simp
  from Cons.IH[OF this] handlePresence_preserves[OF h] show ?case by auto
qed

lemma pingWait_preserves:
  assumes "pingWait ping im sched = Some (Inr im')"
  shows "client_serverJid im' = client_serverJid im \<and> client_timeout im' = client_timeout im
    \<and> ongoingPing im' = ongoingPing im \<and> states im' = states im
    \<and> (\<exists>xs. sent im' = sent im @ xs)"
  using assms
proof (induction sched arbitrary: im)
  case Nil
  then show ?case by simp
next
  case (Cons w sched)
  obtain a ps b where w: "w = (a, ps, b)" by (cases w)
  define r where "r = (if IsTimedOut ping a then Inr im else handlePresences im ps)"
  have "r \<noteq> Inl f" for f using handlePresences_no_abort by (simp add: r_def)
  then obtain im1 where r: "r = Inr im1" by (cases r) auto
  have p1: "client_serverJid im1 = client_serverJid im \<and> client_timeout im1 = client_timeout im
    \<and> ongoingPing im1 = ongoingPing im \<and> states im1 = states im
    \<and> (\<exists>xs. sent im1 = sent im @ xs)"
    using r handlePresences_preserves[of im ps im1] by (auto simp: r_def split: if_splits)
  show ?case
  proof (cases "IsTimedOut ping b \<or> HasFullServerJid im1")
    case True
    then have "im' = im1" using Cons.prems w r
      by (auto simp: r_def[symmetric] split: if_splits)
    then show ?thesis using p1 by simp
  next
    case False
    then have "pingWait ping im1 sched = Some (Inr im')"
      using Cons.prems w r by (auto simp: r_def[symmetric])
    from Cons.IH[OF this] p1 show ?thesis by auto
  qed
qed

lemma TryEnsure_preserves:
  assumes "TryEnsureFullServerJid im now sched = Some (Inr im')"
  shows "client_serverJid im' = client_serverJid im \<and> client_timeout im' = client_timeout im
    \<and> states im' = states im"
proof (cases "HasFullServerJid im")
  case True
  then show ?thesis using assms by (simp add: TryEnsureFullServerJid_def)
next
  case False
  show ?thesis
  proof (cases "ongoingPing im")
    case None
    then obtain im1 where
      "pingWait (TimedConditionVariable_new now (client_timeout im))
         (im\<lparr>sent := sent im @ [PingMessageTo (client_serverJid im)],
              ongoingPing := Some (TimedConditionVariable_new now (client_timeout im))\<rparr>) sched
        = Some (Inr im1)" and "im' = im1\<lparr>ongoingPing := None\<rparr>"
      using assms False
      by (auto simp: TryEnsureFullServerJid_def Let_def split: option.splits sum.splits)
    then show ?thesis using pingWait_preserves by fastforce
  next
    case (Some ping)
    then show ?thesis using assms False pingWait_preserves[of ping im sched im']
      by (simp add: TryEnsureFullServerJid_def)
  qed
qed

lemma ForwardMethod_no_peer:
  assumes "TryEnsureFullServerJid im pingNow pingSchedule = Some (Inr im1)"
    and "\<not> HasFullServerJid im1"
  shows "ForwardMethod im method params pingNow pingSchedule callNow callSchedule =
    Some (Throws (Error ERROR_RPC_INTERNAL_ERROR
                    (''could not discover full server JID for '' @ client_serverJid im) JNull),
          im1)"
  using assms TryEnsure_preserves[OF assms(1)]
  by (simp add: ForwardMethod_def Error2_def)

lemma new_call_waiting:
  "state ((OngoingRpcCall_new now t)\<lparr>call_serverJid := j\<rparr>) = WAITING"
  by (simp add: OngoingRpcCall_new_def)

lemma ForwardMethod_outcomes:
  assumes "ForwardMethod im method params pingNow pingSchedule callNow callSchedule
             = Some (out, im')"
  shows "out = Throws (Error ERROR_RPC_INTERNAL_ERROR
                    (''could not discover full server JID for '' @ client_serverJid im) JNull)
    \<or> out = Throws (Error ERROR_RPC_INTERNAL_ERROR ''selected server is unavailable'' JNull)
    \<or> out = Throws (Error ERROR_RPC_INTERNAL_ERROR
                      (''timeout waiting for result from '' @ full (fullServerJid im')) JNull)
    \<or> (\<exists>iqs now iq ext. (iqs, now) \<in> set callSchedule \<and> iq \<in> set iqs
          \<and> iq_subtype iq = IqResult \<and> iq_RpcResponse iq = Some ext \<and> IsValid ext
          \<and> out = (if IsSuccess ext then Returns (GetResult ext)
                    else Throws (Error (GetErrorCode ext) (GetErrorMessage ext)
                                   (GetErrorData ext))))"
proof -
  from assms obtain im1 where t: "TryEnsureFullServerJid im pingNow pingSchedule = Some (Inr im1)"
    using TryEnsure_no_abort[of im pingNow pingSchedule]
    by (cases "TryEnsureFullServerJid im pingNow pingSchedule")
       (auto simp: ForwardMethod_def split: sum.splits)
  show ?thesis
  proof (cases "HasFullServerJid im1")
    case False
    from ForwardMethod_no_peer[OF t False] assms show ?thesis by simp
  next
    case True
    let ?call = "(OngoingRpcCall_new callNow (client_timeout im1))
                      \<lparr>call_serverJid := fullServerJid im1\<rparr>"
    from assms t True have cw: "callWait ?call callSchedule = Some out"
      and im': "im' = im1\<lparr>sent := sent im1 @ [IqGetTo (fullServerJid im1) method params]\<rparr>"
      by (auto simp: ForwardMethod_def Let_def split: option.splits)
    from callWait_outcomes[OF new_call_waiting cw] im' show ?thesis
      by (simp add: Error2_def)
  qed
qed

lemma handleIqID_ignored:
  assumes "state call \<noteq> WAITING
    \<or> (\<not> (iq_subtype iq = IqError \<and> iq_error iq = Some StanzaErrorServiceUnavailable)
        \<and> (iq_subtype iq \<noteq> IqResult \<or> iq_RpcResponse iq = None
            \<or> (\<exists>ext. iq_RpcResponse iq = Some ext \<and> \<not> IsValid ext)))"
  shows "handleIqID call iq = (call, False)"
  using assms by (auto simp: handleIqID_def split: option.splits)

lemma handleIqs_ignored:
  assumes "\<forall>iq\<in>set iqs.
      \<not> (iq_subtype iq = IqError \<and> iq_error iq = Some StanzaErrorServiceUnavailable)
        \<and> (iq_subtype iq \<noteq> IqResult \<or> iq_RpcResponse iq = None
            \<or> (\<exists>ext. iq_RpcResponse iq = Some ext \<and> \<not> IsValid ext))"
  shows "handleIqs call iqs = call"
  using assms
proof (induction iqs)
  case Nil
  show ?case by simp
next
  case (Cons iq iqs)
  then have "handleIqID call iq = (call, False)" by (intro handleIqID_ignored) simp
  with Cons show ?case by simp
qed

lemma callWait_ignored:
  assumes "state call = WAITING"
    and "\<forall>w\<in>set sched. \<forall>iq\<in>set (fst w).
      \<not> (iq_subtype iq = IqError \<and> iq_error iq = Some StanzaErrorServiceUnavailable)
        \<and> (iq_subtype iq \<noteq> IqResult \<or> iq_RpcResponse iq = None
            \<or> (\<exists>ext. iq_RpcResponse iq = Some ext \<and> \<not> IsValid ext))"
  shows "callWait call sched =
    (if \<exists>w\<in>set sched. endTime (cv call) \<le> snd w
     then Some (Throws (Error ERROR_RPC_INTERNAL_ERROR
                          (''timeout waiting for result from '' @ full (call_serverJid call))
                          JNull))
     else None)"
  using assms(2)
proof (induction sched)
  case Nil
  show ?case by simp
next
  case (Cons w sched)
  obtain iqs now where w: "w = (iqs, now)" by (cases w)
  from Cons.prems w have "handleIqs call iqs = call" by (intro handleIqs_ignored) simp
  moreover from Cons have "callWait call sched =
    (if \<exists>w\<in>set sched. endTime (cv call) \<le> snd w
     then Some (Throws (Error ERROR_RPC_INTERNAL_ERROR
                          (''timeout waiting for result from '' @ full (call_serverJid call))
                          JNull))
     else None)" by simp
  ultimately show ?case using w assms(1) by (simp add: IsTimedOut_def Error2_def)
qed

lemma handlePresence_selected_Available:
  assumes "HasFullServerJid im" and "p_subtype p = Available"
  shows "\<exists>n. handlePresence im p = Inr (im, n)"
  using assms by (auto simp: handlePresence_def)

lemma handlePresences_selected_Available:
  assumes "HasFullServerJid im" and "\<forall>p\<in>set ps. p_subtype p = Available"
  shows "handlePresences im ps = Inr im"
  using assms(2)
proof (induction ps)
  case Nil
  show ?case by simp
next
  case (Cons p ps)
  then obtain n where "handlePresence im p = Inr (im, n)"
    using handlePresence_selected_Available[OF assms(1), of p] by auto
  with Cons show ?case by simp
qed

lemma handlePresence_accepts:
  assumes "\<not> HasFullServerJid im" and "p_subtype p = Available" and "p_PongMessage p"
    and "supportsAll (p_SupportedNotifications p) (states im)"
  shows "\<exists>im' n. handlePresence im p = Inr (im', n) \<and> fullServerJid im' = p_from p"
proof (cases "p_SupportedNotifications p")
  case None
  with assms(4) have "states im = []" by (simp add: supportsAll_None)
  with assms show ?thesis by (simp add: handlePresence_def Let_def)
next
  case (Some sn)
  with assms(4) have "supportsAll (Some sn) (states im)" by simp
  from subscribeAll_ok[OF this]
  obtain ts where "subscribeAll (GetNotifications sn) (states im) = Inr ts" by blast
  with assms Some show ?thesis
    by (simp add: handlePresence_def Let_def AddPubSub_def FinishSubscriptions_def)
qed

lemma supportsAll_iff:
  "supportsAll (Some sn) sts = (\<forall>entry\<in>set sts. GetNotifications sn (fst entry) \<noteq> None)"
  by (induction sts) (auto split: option.splits)

lemma pingWait_sent:
  assumes "pingWait ping im sched = Some (Inr im')"
  shows "\<exists>xs. sent im' = sent im @ xs"
  using pingWait_preserves[OF assms] by blast

lemma TryEnsure_sends_ping:
  assumes "\<not> HasFullServerJid im" and "ongoingPing im = None"
    and "TryEnsureFullServerJid im now sched = Some (Inr im')"
  shows "\<exists>xs. sent im' = sent im @ PingMessageTo (client_serverJid im) # xs"
proof -
  let ?ping = "TimedConditionVariable_new now (client_timeout im)"
  let ?im1 = "im\<lparr>sent := sent im @ [PingMessageTo (client_serverJid im)],
                   ongoingPing := Some ?ping\<rparr>"
  from assms obtain im2 where w: "pingWait ?ping ?im1 sched = Some (Inr im2)"
    and im': "im' = im2\<lparr>ongoingPing := None\<rparr>"
    by (auto simp: TryEnsureFullServerJid_def Let_def split: option.splits sum.splits)
  from pingWait_sent[OF w] obtain xs where "sent im2 = sent ?im1 @ xs" by blast
  with im' show ?thesis by simp
qed

lemma ForwardMethod_sends_ping:
  assumes "\<not> HasFullServerJid im" and "ongoingPing im = None"
    and "ForwardMethod im method params now sched callNow callSchedule = Some (out, im')"
  shows "\<exists>xs. sent im' = sent im @ PingMessageTo (client_serverJid im) # xs"
proof -
  from assms(3) obtain im1 where t: "TryEnsureFullServerJid im now sched = Some (Inr im1)"
    using TryEnsure_no_abort[of im now sched]
    by (cases "TryEnsureFullServerJid im now sched")
       (auto simp: ForwardMethod_def split: sum.splits)
  from TryEnsure_sends_ping[OF assms(1,2) t] obtain xs where
    xs: "sent im1 = sent im @ PingMessageTo (client_serverJid im) # xs" by blast
  from assms(3) t have "im' = im1
      \<or> im' = im1\<lparr>sent := sent im1 @ [IqGetTo (fullServerJid im1) method params]\<rparr>"
    by (auto simp: ForwardMethod_def Let_def split: if_splits option.splits)
  with xs show ?thesis by auto
qed

lemma reachable_state_null:
  assumes "reachable_state ns" and "\<not> hasState ns"
  shows "ns_state ns = JNull"
  using assms
proof (induction rule: reachable_state.induct)
  case (reachable_new n)
  show ?case by (simp add: NotificationState_new_def)
next
  case (reachable_item ns t)
  then show ?case
    by (auto simp: ItemCallback_def split: option.splits if_splits)
qed

lemma handleIqID_keeps:
  "cv (fst (handleIqID call iq)) = cv call
   \<and> call_serverJid (fst (handleIqID call iq)) = call_serverJid call"
  by (simp add: handleIqID_def split: option.splits)

lemma handleIqs_keeps:
  "cv (handleIqs call iqs) = cv call \<and> call_serverJid (handleIqs call iqs) = call_serverJid call"
  by (induction iqs arbitrary: call) (simp_all add: handleIqID_keeps)

lemma handleIqs_append: "handleIqs call (xs @ ys) = handleIqs (handleIqs call xs) ys"
  by (induction xs arbitrary: call) simp_all

lemma callWait_terminates:
  assumes "\<exists>w\<in>set sched. endTime (cv call) \<le> snd w"
  shows "\<exists>out. callWait call sched = Some out"
  using assms
proof (induction sched arbitrary: call)
  case Nil
  then show ?case by simp
next
  case (Cons w sched)
  obtain iqs now where w: "w = (iqs, now)" by (cases w)
  let ?c = "handleIqs call iqs"
  have k: "cv ?c = cv call" by (simp add: handleIqs_keeps)
  show ?case
  proof (cases "state ?c = WAITING \<and> \<not> IsTimedOut (cv ?c) now")
    case True
    with Cons.prems w k have "\<exists>w\<in>set sched. endTime (cv ?c) \<le> snd w"
      by (auto simp: IsTimedOut_def)
    from Cons.IH[OF this] True w show ?thesis by simp
  next
    case False
    then show ?thesis using w by (cases "state ?c") simp_all
  qed
qed

lemma callWait_skip:
  assumes "state call = WAITING"
    and "\<forall>w\<in>set pre. snd w < endTime (cv call) \<and> (\<forall>q\<in>set (fst w).
      \<not> (iq_subtype q = IqError \<and> iq_error q = Some StanzaErrorServiceUnavailable)
        \<and> (iq_subtype q \<noteq> IqResult \<or> iq_RpcResponse q = None
            \<or> (\<exists>ext. iq_RpcResponse q = Some ext \<and> \<not> IsValid ext)))"
  shows "callWait call (pre @ sched) = callWait call sched"
  using assms(2)
proof (induction pre)
  case Nil
  show ?case by simp
next
  case (Cons w pre)
  obtain iqs now where w: "w = (iqs, now)" by (cases w)
  from Cons.prems w have "handleIqs call iqs = call" by (intro handleIqs_ignored) simp
  moreover from Cons.prems w have "\<not> IsTimedOut (cv call) now" by (simp add: IsTimedOut_def)
  moreover from Cons have "callWait call (pre @ sched) = callWait call sched" by simp
  ultimately show ?case using w assms(1) by simp
qed

lemma callWait_error_response_later:
  assumes "state call = WAITING"
    and "\<forall>q\<in>set iqs1.
      \<not> (iq_subtype q = IqError \<and> iq_error q = Some StanzaErrorServiceUnavailable)
        \<and> (iq_subtype q \<noteq> IqResult \<or> iq_RpcResponse q = None
            \<or> (\<exists>ext. iq_RpcResponse q = Some ext \<and> \<not> IsValid ext))"
    and "iq_subtype iq = IqResult" "iq_RpcResponse iq = Some ext" "IsValid ext" "\<not> IsSuccess ext"
  shows "callWait call ((iqs1 @ iq # iqs2, now) # rest) =
    Some (Throws (Error (GetErrorCode ext) (GetErrorMessage ext) (GetErrorData ext)))"
proof -
  have "handleIqs call iqs1 = call" using assms(2) by (rule handleIqs_ignored)
  then have "handleIqs call (iqs1 @ iq # iqs2) = handleIqs call (iq # iqs2)"
    by (simp add: handleIqs_append)
  then show ?thesis
    using assms(1,3-) by (simp add: handleIqID_error_response handleIqs_not_waiting)
qed

lemma callWait_unavailable_later:
  assumes "state call = WAITING"
    and "\<forall>q\<in>set iqs1.
      \<not> (iq_subtype q = IqError \<and> iq_error q = Some StanzaErrorServiceUnavailable)
        \<and> (iq_subtype q \<noteq> IqResult \<or> iq_RpcResponse q = None
            \<or> (\<exists>ext. iq_RpcResponse q = Some ext \<and> \<not> IsValid ext))"
    and "iq_subtype iq = IqError" "iq_error iq = Some StanzaErrorServiceUnavailable"
  shows "callWait call ((iqs1 @ iq # iqs2, now) # rest) =
    Some (Throws (Error ERROR_RPC_INTERNAL_ERROR ''selected server is unavailable'' JNull))"
proof -
  have "handleIqs call iqs1 = call" using assms(2) by (rule handleIqs_ignored)
  then have "handleIqs call (iqs1 @ iq # iqs2) = handleIqs call (iq # iqs2)"
    by (simp add: handleIqs_append)
  moreover have "handleIqID call iq = (call\<lparr>state := UNAVAILABLE\<rparr>, True)"
    using assms(1,3,4) by (simp add: handleIqID_def)
  ultimately show ?thesis
    by (simp add: handleIqs_not_waiting Error2_def)
qed

lemma ForwardMethod_discovered:
  assumes "TryEnsureFullServerJid im pingNow pingSchedule = Some (Inr im1)"
    and "HasFullServerJid im1"
  shows "ForwardMethod im method params pingNow pingSchedule callNow callSchedule =
    (case callWait ((OngoingRpcCall_new callNow (client_timeout im1))
                      \<lparr>call_serverJid := fullServerJid im1\<rparr>) callSchedule of
       None \<Rightarrow> None
     | Some out \<Rightarrow>
         Some (out, im1\<lparr>sent := sent im1 @ [IqGetTo (fullServerJid im1) method params]\<rparr>))"
  using assms by (simp add: ForwardMethod_def Let_def)

lemma pingWait_terminates:
  assumes "\<exists>w\<in>set sched. endTime ping \<le> snd (snd w)"
  shows "\<exists>im'. pingWait ping im sched = Some (Inr im')"
  using assms
proof (induction sched arbitrary: im)
  case Nil
  then show ?case by simp
next
  case (Cons w sched)
  obtain a ps b where w: "w = (a, ps, b)" by (cases w)
  define r where "r = (if IsTimedOut ping a then Inr im else handlePresences im ps)"
  have "r \<noteq> Inl f" for f using handlePresences_no_abort by (simp add: r_def)
  then obtain im1 where r: "r = Inr im1" by (cases r) auto
  show ?case
  proof (cases "IsTimedOut ping b \<or> HasFullServerJid im1")
    case True
    then show ?thesis using w r by (auto simp: r_def[symmetric])
  next
    case False
    with Cons.prems w have "\<exists>w\<in>set sched. endTime ping \<le> snd (snd w)"
      by (auto simp: IsTimedOut_def)
    from Cons.IH[OF this, of im1] False w r show ?thesis by (auto simp: r_def[symmetric])
  qed
qed

lemma TryEnsure_terminates:
  assumes "HasFullServerJid im
    \<or> (\<exists>w\<in>set sched. (case ongoingPing im of
                            None \<Rightarrow> now + client_timeout im
                          | Some ping \<Rightarrow> endTime ping) \<le> snd (snd w))"
  shows "\<exists>im'. TryEnsureFullServerJid im now sched = Some (Inr im')"
proof (cases "HasFullServerJid im")
  case True
  then show ?thesis by (simp add: TryEnsureFullServerJid_def)
next
  case False
  show ?thesis
  proof (cases "ongoingPing im")
    case None
    let ?ping = "TimedConditionVariable_new now (client_timeout im)"
    from assms False None have "\<exists>w\<in>set sched. endTime ?ping \<le> snd (snd w)"
      by (simp add: TimedConditionVariable_new_def)
    from pingWait_terminates[OF this] obtain im' where
      "pingWait ?ping (im\<lparr>sent := sent im @ [PingMessageTo (client_serverJid im)],
                           ongoingPing := Some ?ping\<rparr>) sched = Some (Inr im')" by blast
    with False None show ?thesis by (simp add: TryEnsureFullServerJid_def Let_def)
  next
    case (Some ping)
    with assms False have "\<exists>w\<in>set sched. endTime ping \<le> snd (snd w)" by simp
    from pingWait_terminates[OF this, of im] False Some show ?thesis
      by (simp add: TryEnsureFullServerJid_def)
  qed
qed

lemma ForwardMethod_terminates:
  assumes "HasFullServerJid im
    \<or> (\<exists>w\<in>set pingSchedule. (case ongoingPing im of
                            None \<Rightarrow> pingNow + client_timeout im
                          | Some ping \<Rightarrow> endTime ping) \<le> snd (snd w))"
    and "\<exists>w\<in>set callSchedule. callNow + client_timeout im \<le> snd w"
  shows "\<exists>out im'. ForwardMethod im method params pingNow pingSchedule callNow callSchedule
           = Some (out, im')"
proof -
  from TryEnsure_terminates[OF assms(1)] obtain im1 where
    t: "TryEnsureFullServerJid im pingNow pingSchedule = Some (Inr im1)" by blast
  show ?thesis
  proof (cases "HasFullServerJid im1")
    case False
    from ForwardMethod_no_peer[OF t False] show ?thesis by blast
  next
    case True
    let ?call = "(OngoingRpcCall_new callNow (client_timeout im1))
                      \<lparr>call_serverJid := fullServerJid im1\<rparr>"
    from TryEnsure_preserves[OF t] assms(2)
    have "\<exists>w\<in>set callSchedule. endTime (cv ?call) \<le> snd w"
      by (simp add: OngoingRpcCall_new_def TimedConditionVariable_new_def)
    from callWait_terminates[OF this] obtain out where "callWait ?call callSchedule = Some out"
      by blast
    then show ?thesis unfolding ForwardMethod_discovered[OF t True] by simp
  qed
qed

section \<open>The claims\<close>

text \<open>
  C1. When the response that resolves a waiting call is an error response, that is a
  result stanza whose valid \<^verbatim>\<open>RpcResponse\<close> extension is not a success, the handler
  stores exactly \<^verbatim>\<open>Error (code, message, data)\<close> of the extension, and
  \<^verbatim>\<open>ForwardMethod\<close> throws that error unmodified. This holds for every call that has a
  full server address after its discovery, and wherever the response stands in the
  schedule of the call, as long as the call is still waiting then: the earlier wake-ups
  are before the deadline and the earlier IQs are ones the handler ignores.
\<close>

theorem error_response_thrown_unmodified:
  assumes "iq_subtype iq = IqResult" and "iq_RpcResponse iq = Some ext"
    and "IsValid ext" and "\<not> IsSuccess ext"
  shows "(state call = WAITING \<longrightarrow>
            handleIqID call iq =
              (call\<lparr>state := RESPONSE_ERROR,
                    error := Error (GetErrorCode ext) (GetErrorMessage ext) (GetErrorData ext)\<rparr>,
               True))
       \<and> (state call = WAITING
            \<and> (\<forall>w\<in>set pre. snd w < endTime (cv call) \<and> (\<forall>q\<in>set (fst w).
                  \<not> (iq_subtype q = IqError \<and> iq_error q = Some StanzaErrorServiceUnavailable)
                  \<and> (iq_subtype q \<noteq> IqResult \<or> iq_RpcResponse q = None
                      \<or> (\<exists>e. iq_RpcResponse q = Some e \<and> \<not> IsValid e))))
            \<and> (\<forall>q\<in>set iqs1.
                  \<not> (iq_subtype q = IqError \<and> iq_error q = Some StanzaErrorServiceUnavailable)
                  \<and> (iq_subtype q \<noteq> IqResult \<or> iq_RpcResponse q = None
                      \<or> (\<exists>e. iq_RpcResponse q = Some e \<and> \<not> IsValid e)))
          \<longrightarrow> callWait call (pre @ (iqs1 @ iq # iqs2, now) # rest) =
              Some (Throws (Error (GetErrorCode ext) (GetErrorMessage ext) (GetErrorData ext))))
       \<and> (TryEnsureFullServerJid im pingNow pingSchedule = Some (Inr im1)
            \<and> HasFullServerJid im1
            \<and> (\<forall>w\<in>set pre. snd w < callNow + client_timeout im \<and> (\<forall>q\<in>set (fst w).
                  \<not> (iq_subtype q = IqError \<and> iq_error q = Some StanzaErrorServiceUnavailable)
                  \<and> (iq_subtype q \<noteq> IqResult \<or> iq_RpcResponse q = None
                      \<or> (\<exists>e. iq_RpcResponse q = Some e \<and> \<not> IsValid e))))
            \<and> (\<forall>q\<in>set iqs1.
                  \<not> (iq_subtype q = IqError \<and> iq_error q = Some StanzaErrorServiceUnavailable)
                  \<and> (iq_subtype q \<noteq> IqResult \<or> iq_RpcResponse q = None
                      \<or> (\<exists>e. iq_RpcResponse q = Some e \<and> \<not> IsValid e)))
          \<longrightarrow> ForwardMethod im meth params pingNow pingSchedule callNow
                (pre @ (iqs1 @ iq # iqs2, now) # rest) =
              Some (Throws (Error (GetErrorCode ext) (GetErrorMessage ext) (GetErrorData ext)),
                    im1\<lparr>sent := sent im1 @ [IqGetTo (fullServerJid im1) meth params]\<rparr>))"
proof (intro conjI impI)
  assume "state call = WAITING"
  then show "handleIqID call iq =
              (call\<lparr>state := RESPONSE_ERROR,
                    error := Error (GetErrorCode ext) (GetErrorMessage ext) (GetErrorData ext)\<rparr>,
               True)"
    using assms by (rule handleIqID_error_response)
next
  assume a: "state call = WAITING
            \<and> (\<forall>w\<in>set pre. snd w < endTime (cv call) \<and> (\<forall>q\<in>set (fst w).
                  \<not> (iq_subtype q = IqError \<and> iq_error q = Some StanzaErrorServiceUnavailable)
                  \<and> (iq_subtype q \<noteq> IqResult \<or> iq_RpcResponse q = None
                      \<or> (\<exists>e. iq_RpcResponse q = Some e \<and> \<not> IsValid e))))
            \<and> (\<forall>q\<in>set iqs1.
                  \<not> (iq_subtype q = IqError \<and> iq_error q = Some StanzaErrorServiceUnavailable)
                  \<and> (iq_subtype q \<noteq> IqResult \<or> iq_RpcResponse q = None
                      \<or> (\<exists>e. iq_RpcResponse q = Some e \<and> \<not> IsValid e)))"
  then have "callWait call (pre @ (iqs1 @ iq # iqs2, now) # rest)
      = callWait call ((iqs1 @ iq # iqs2, now) # rest)"
    by (intro callWait_skip) blast+
  also have "\<dots> = Some (Throws (Error (GetErrorCode ext) (GetErrorMessage ext) (GetErrorData ext)))"
    using a assms by (intro callWait_error_response_later) blast+
  finally show "callWait call (pre @ (iqs1 @ iq # iqs2, now) # rest) =
              Some (Throws (Error (GetErrorCode ext) (GetErrorMessage ext) (GetErrorData ext)))" .
next
  assume a: "TryEnsureFullServerJid im pingNow pingSchedule = Some (Inr im1)
            \<and> HasFullServerJid im1
            \<and> (\<forall>w\<in>set pre. snd w < callNow + client_timeout im \<and> (\<forall>q\<in>set (fst w).
                  \<not> (iq_subtype q = IqError \<and> iq_error q = Some StanzaErrorServiceUnavailable)
                  \<and> (iq_subtype q \<noteq> IqResult \<or> iq_RpcResponse q = None
                      \<or> (\<exists>e. iq_RpcResponse q = Some e \<and> \<not> IsValid e))))
            \<and> (\<forall>q\<in>set iqs1.
                  \<not> (iq_subtype q = IqError \<and> iq_error q = Some StanzaErrorServiceUnavailable)
                  \<and> (iq_subtype q \<noteq> IqResult \<or> iq_RpcResponse q = None
                      \<or> (\<exists>e. iq_RpcResponse q = Some e \<and> \<not> IsValid e)))"
  let ?call = "(OngoingRpcCall_new callNow (client_timeout im1))
                 \<lparr>call_serverJid := fullServerJid im1\<rparr>"
  from a have t: "TryEnsureFullServerJid im pingNow pingSchedule = Some (Inr im1)"
    and h: "HasFullServerJid im1" by blast+
  from TryEnsure_preserves[OF t] have e: "endTime (cv ?call) = callNow + client_timeout im"
    by (simp add: OngoingRpcCall_new_def TimedConditionVariable_new_def)
  have "callWait ?call (pre @ (iqs1 @ iq # iqs2, now) # rest)
      = callWait ?call ((iqs1 @ iq # iqs2, now) # rest)"
    using a unfolding e[symmetric] by (intro callWait_skip new_call_waiting) blast
  also have "\<dots> = Some (Throws (Error (GetErrorCode ext) (GetErrorMessage ext) (GetErrorData ext)))"
    using a assms by (intro callWait_error_response_later new_call_waiting) blast+
  finally show "ForwardMethod im meth params pingNow pingSchedule callNow
                (pre @ (iqs1 @ iq # iqs2, now) # rest) =
              Some (Throws (Error (GetErrorCode ext) (GetErrorMessage ext) (GetErrorData ext)),
                    im1\<lparr>sent := sent im1 @ [IqGetTo (fullServerJid im1) meth params]\<rparr>)"
    unfolding ForwardMethod_discovered[OF t h] by simp
qed

theorem error_response_thrown_unmodified_witness:
  "ForwardMethod
     \<lparr>client_serverJid = ''gsp@chat.example'', client_timeout = 3000,
      fullServerJid = \<lparr>username = ''gsp'', server = ''chat.example'', resource = []\<rparr>,
      subscribeCalls = [], ongoingPing = None, states = [], pubsub = None, sent = []\<rparr>
     ''error'' (JArray [JString ''boom'']) 0
     [(0, [\<lparr>p_subtype = Available,
            p_from = \<lparr>username = ''gsp'', server = ''chat.example'', resource = ''r1''\<rparr>,
            p_PongMessage = True, p_SupportedNotifications = None\<rparr>], 100)]
     200
     ([([\<lparr>iq_subtype = IqResult, iq_error = None,
          iq_from = \<lparr>username = ''gsp'', server = ''chat.example'', resource = ''r1''\<rparr>,
          iq_RpcResponse = None\<rparr>], 300)]
      @ ([] @ \<lparr>iq_subtype = IqResult, iq_error = None,
           iq_from = \<lparr>username = ''gsp'', server = ''chat.example'', resource = ''r1''\<rparr>,
           iq_RpcResponse = Some \<lparr>IsValid = True, IsSuccess = False, GetResult = JNull,
                                  GetErrorCode = 42, GetErrorMessage = ''boom'',
                                  GetErrorData = JInt 7\<rparr>\<rparr> # [], 400) # [])
   = Some (Throws (Error 42 ''boom'' (JInt 7)),
           \<lparr>client_serverJid = ''gsp@chat.example'', client_timeout = 3000,
            fullServerJid = \<lparr>username = ''gsp'', server = ''chat.example'', resource = ''r1''\<rparr>,
            subscribeCalls = [], ongoingPing = None, states = [], pubsub = None,
            sent = [PingMessageTo ''gsp@chat.example'',
                    PresenceAvailableTo
                      \<lparr>username = ''gsp'', server = ''chat.example'', resource = ''r1''\<rparr>,
                    IqGetTo \<lparr>username = ''gsp'', server = ''chat.example'', resource = ''r1''\<rparr>
                      ''error'' (JArray [JString ''boom''])]\<rparr>)"
proof -
  let ?r1 = "\<lparr>username = ''gsp'', server = ''chat.example'', resource = ''r1''\<rparr>"
  let ?im = "\<lparr>client_serverJid = ''gsp@chat.example'', client_timeout = 3000,
      fullServerJid = \<lparr>username = ''gsp'', server = ''chat.example'', resource = []\<rparr>,
      subscribeCalls = [], ongoingPing = None, states = [], pubsub = None, sent = []\<rparr>"
  let ?im1 = "?im\<lparr>fullServerJid := ?r1,
                   sent := [PingMessageTo ''gsp@chat.example'', PresenceAvailableTo ?r1]\<rparr>"
  let ?p = "\<lparr>p_subtype = Available, p_from = ?r1, p_PongMessage = True,
            p_SupportedNotifications = None\<rparr>"
  let ?ext = "\<lparr>IsValid = True, IsSuccess = False, GetResult = JNull,
               GetErrorCode = 42, GetErrorMessage = ''boom'', GetErrorData = JInt 7\<rparr>"
  let ?iq = "\<lparr>iq_subtype = IqResult, iq_error = None, iq_from = ?r1,
              iq_RpcResponse = Some ?ext\<rparr>"
  let ?noise = "\<lparr>iq_subtype = IqResult, iq_error = None, iq_from = ?r1,
                 iq_RpcResponse = None\<rparr>"
  have t: "TryEnsureFullServerJid ?im 0 [(0, [?p], 100)] = Some (Inr ?im1)"
    by (simp add: TryEnsureFullServerJid_def HasFullServerJid_def Let_def handlePresence_def
          TimedConditionVariable_new_def IsTimedOut_def)
  have h: "HasFullServerJid ?im1" by (simp add: HasFullServerJid_def)
  from error_response_thrown_unmodified
         [where iq = ?iq and ext = ?ext and im = ?im and ?im1.0 = ?im1 and pingNow = 0
            and pingSchedule = "[(0, [?p], 100)]" and callNow = 200
            and pre = "[([?noise], 300)]" and ?iqs1.0 = "[]" and ?iqs2.0 = "[]" and now = 400
            and rest = "[]" and meth = "''error''" and params = "JArray [JString ''boom'']",
          THEN conjunct2, THEN conjunct2, rule_format]
       t h
  show ?thesis by simp
qed

text \<open>
  C2. Every transport or discovery failure of \<^verbatim>\<open>ForwardMethod\<close> is thrown as an error
  with the JSON-RPC internal-error code. When no full server address is found after
  the discovery, the message is "could not discover full server JID for" the server.
  For every call that has a full server address after its discovery: when a waiting
  call is answered with a service-unavailable error, it throws "selected server is
  unavailable"; when only IQs that the handler ignores arrive, or none, it throws
  "timeout waiting for result from" the peer exactly when a clock reading reaches the
  start of the call plus the timeout (3000 ms as the client is constructed), and waits
  until then. Every outcome that is not one of these three errors is the result or the
  error of a valid response, and the call ends whenever the discovery and the call
  reach their deadlines.
\<close>

theorem transport_failures_internal_error:
  "(TryEnsureFullServerJid im pingNow pingSchedule = Some (Inr im1) \<and> \<not> HasFullServerJid im1 \<longrightarrow>
      ForwardMethod im meth params pingNow pingSchedule callNow callSchedule =
        Some (Throws (Error ERROR_RPC_INTERNAL_ERROR
                        (''could not discover full server JID for '' @ client_serverJid im)
                        JNull), im1))
   \<and> (TryEnsureFullServerJid im pingNow pingSchedule = Some (Inr im1) \<and> HasFullServerJid im1
        \<and> (\<forall>w\<in>set pre. snd w < callNow + client_timeout im \<and> (\<forall>q\<in>set (fst w).
              \<not> (iq_subtype q = IqError \<and> iq_error q = Some StanzaErrorServiceUnavailable)
              \<and> (iq_subtype q \<noteq> IqResult \<or> iq_RpcResponse q = None
                  \<or> (\<exists>e. iq_RpcResponse q = Some e \<and> \<not> IsValid e))))
        \<and> (\<forall>q\<in>set iqs1.
              \<not> (iq_subtype q = IqError \<and> iq_error q = Some StanzaErrorServiceUnavailable)
              \<and> (iq_subtype q \<noteq> IqResult \<or> iq_RpcResponse q = None
                  \<or> (\<exists>e. iq_RpcResponse q = Some e \<and> \<not> IsValid e)))
        \<and> iq_subtype iq = IqError \<and> iq_error iq = Some StanzaErrorServiceUnavailable \<longrightarrow>
      ForwardMethod im meth params pingNow pingSchedule callNow
          (pre @ (iqs1 @ iq # iqs2, now) # rest) =
        Some (Throws (Error ERROR_RPC_INTERNAL_ERROR ''selected server is unavailable'' JNull),
              im1\<lparr>sent := sent im1 @ [IqGetTo (fullServerJid im1) meth params]\<rparr>))
   \<and> (TryEnsureFullServerJid im pingNow pingSchedule = Some (Inr im1) \<and> HasFullServerJid im1
        \<and> (\<forall>w\<in>set callSchedule. \<forall>q\<in>set (fst w).
              \<not> (iq_subtype q = IqError \<and> iq_error q = Some StanzaErrorServiceUnavailable)
              \<and> (iq_subtype q \<noteq> IqResult \<or> iq_RpcResponse q = None
                  \<or> (\<exists>e. iq_RpcResponse q = Some e \<and> \<not> IsValid e))) \<longrightarrow>
      ForwardMethod im meth params pingNow pingSchedule callNow callSchedule =
        (if \<exists>w\<in>set callSchedule. callNow + client_timeout im \<le> snd w
         then Some (Throws (Error ERROR_RPC_INTERNAL_ERROR
                              (''timeout waiting for result from '' @ full (fullServerJid im1))
                              JNull),
                    im1\<lparr>sent := sent im1 @ [IqGetTo (fullServerJid im1) meth params]\<rparr>)
         else None))
   \<and> (ForwardMethod im meth params pingNow pingSchedule callNow callSchedule = Some (out, im') \<longrightarrow>
        out = Throws (Error ERROR_RPC_INTERNAL_ERROR
                        (''could not discover full server JID for '' @ client_serverJid im)
                        JNull)
      \<or> out = Throws (Error ERROR_RPC_INTERNAL_ERROR ''selected server is unavailable'' JNull)
      \<or> out = Throws (Error ERROR_RPC_INTERNAL_ERROR
                        (''timeout waiting for result from '' @ full (fullServerJid im')) JNull)
      \<or> (\<exists>iqs now iq ext. (iqs, now) \<in> set callSchedule \<and> iq \<in> set iqs
            \<and> iq_subtype iq = IqResult \<and> iq_RpcResponse iq = Some ext \<and> IsValid ext
            \<and> out = (if IsSuccess ext then Returns (GetResult ext)
                      else Throws (Error (GetErrorCode ext) (GetErrorMessage ext)
                                     (GetErrorData ext)))))
   \<and> ((HasFullServerJid im
         \<or> (\<exists>w\<in>set pingSchedule. (case ongoingPing im of
                                       None \<Rightarrow> pingNow + client_timeout im
                                     | Some ping \<Rightarrow> endTime ping) \<le> snd (snd w)))
        \<and> (\<exists>w\<in>set callSchedule. callNow + client_timeout im \<le> snd w) \<longrightarrow>
      (\<exists>out im'. ForwardMethod im meth params pingNow pingSchedule callNow callSchedule
                   = Some (out, im')))
   \<and> timeout (Client_new srv) = DEFAULT_TIMEOUT \<and> DEFAULT_TIMEOUT = 3000"
proof (intro conjI impI)
  assume "TryEnsureFullServerJid im pingNow pingSchedule = Some (Inr im1) \<and> \<not> HasFullServerJid im1"
  then show "ForwardMethod im meth params pingNow pingSchedule callNow callSchedule =
        Some (Throws (Error ERROR_RPC_INTERNAL_ERROR
                        (''could not discover full server JID for '' @ client_serverJid im)
                        JNull), im1)"
    using ForwardMethod_no_peer by blast
next
  assume a: "TryEnsureFullServerJid im pingNow pingSchedule = Some (Inr im1) \<and> HasFullServerJid im1
        \<and> (\<forall>w\<in>set pre. snd w < callNow + client_timeout im \<and> (\<forall>q\<in>set (fst w).
              \<not> (iq_subtype q = IqError \<and> iq_error q = Some StanzaErrorServiceUnavailable)
              \<and> (iq_subtype q \<noteq> IqResult \<or> iq_RpcResponse q = None
                  \<or> (\<exists>e. iq_RpcResponse q = Some e \<and> \<not> IsValid e))))
        \<and> (\<forall>q\<in>set iqs1.
              \<not> (iq_subtype q = IqError \<and> iq_error q = Some StanzaErrorServiceUnavailable)
              \<and> (iq_subtype q \<noteq> IqResult \<or> iq_RpcResponse q = None
                  \<or> (\<exists>e. iq_RpcResponse q = Some e \<and> \<not> IsValid e)))
        \<and> iq_subtype iq = IqError \<and> iq_error iq = Some StanzaErrorServiceUnavailable"
  let ?call = "(OngoingRpcCall_new callNow (client_timeout im1))
                 \<lparr>call_serverJid := fullServerJid im1\<rparr>"
  from a have t: "TryEnsureFullServerJid im pingNow pingSchedule = Some (Inr im1)"
    and h: "HasFullServerJid im1" by blast+
  from TryEnsure_preserves[OF t] have e: "endTime (cv ?call) = callNow + client_timeout im"
    by (simp add: OngoingRpcCall_new_def TimedConditionVariable_new_def)
  have "callWait ?call (pre @ (iqs1 @ iq # iqs2, now) # rest)
      = callWait ?call ((iqs1 @ iq # iqs2, now) # rest)"
    using a unfolding e[symmetric] by (intro callWait_skip new_call_waiting) blast
  also have "\<dots> = Some (Throws (Error ERROR_RPC_INTERNAL_ERROR
                                ''selected server is unavailable'' JNull))"
    using a by (intro callWait_unavailable_later new_call_waiting) blast+
  finally show "ForwardMethod im meth params pingNow pingSchedule callNow
          (pre @ (iqs1 @ iq # iqs2, now) # rest) =
        Some (Throws (Error ERROR_RPC_INTERNAL_ERROR ''selected server is unavailable'' JNull),
              im1\<lparr>sent := sent im1 @ [IqGetTo (fullServerJid im1) meth params]\<rparr>)"
    unfolding ForwardMethod_discovered[OF t h] by simp
next
  assume a: "TryEnsureFullServerJid im pingNow pingSchedule = Some (Inr im1) \<and> HasFullServerJid im1
        \<and> (\<forall>w\<in>set callSchedule. \<forall>q\<in>set (fst w).
              \<not> (iq_subtype q = IqError \<and> iq_error q = Some StanzaErrorServiceUnavailable)
              \<and> (iq_subtype q \<noteq> IqResult \<or> iq_RpcResponse q = None
                  \<or> (\<exists>e. iq_RpcResponse q = Some e \<and> \<not> IsValid e)))"
  let ?call = "(OngoingRpcCall_new callNow (client_timeout im1))
                 \<lparr>call_serverJid := fullServerJid im1\<rparr>"
  from a have t: "TryEnsureFullServerJid im pingNow pingSchedule = Some (Inr im1)"
    and h: "HasFullServerJid im1" by blast+
  from TryEnsure_preserves[OF t] have e: "endTime (cv ?call) = callNow + client_timeout im"
    by (simp add: OngoingRpcCall_new_def TimedConditionVariable_new_def)
  have j: "call_serverJid ?call = fullServerJid im1" by simp
  have "callWait ?call callSchedule =
    (if \<exists>w\<in>set callSchedule. endTime (cv ?call) \<le> snd w
     then Some (Throws (Error ERROR_RPC_INTERNAL_ERROR
                          (''timeout waiting for result from '' @ full (call_serverJid ?call))
                          JNull))
     else None)"
    using a by (intro callWait_ignored new_call_waiting) blast
  then show "ForwardMethod im meth params pingNow pingSchedule callNow callSchedule =
        (if \<exists>w\<in>set callSchedule. callNow + client_timeout im \<le> snd w
         then Some (Throws (Error ERROR_RPC_INTERNAL_ERROR
                              (''timeout waiting for result from '' @ full (fullServerJid im1))
                              JNull),
                    im1\<lparr>sent := sent im1 @ [IqGetTo (fullServerJid im1) meth params]\<rparr>)
         else None)"
    unfolding ForwardMethod_discovered[OF t h] e j by simp
next
  assume "ForwardMethod im meth params pingNow pingSchedule callNow callSchedule = Some (out, im')"
  then show "out = Throws (Error ERROR_RPC_INTERNAL_ERROR
                        (''could not discover full server JID for '' @ client_serverJid im)
                        JNull)
      \<or> out = Throws (Error ERROR_RPC_INTERNAL_ERROR ''selected server is unavailable'' JNull)
      \<or> out = Throws (Error ERROR_RPC_INTERNAL_ERROR
                        (''timeout waiting for result from '' @ full (fullServerJid im')) JNull)
      \<or> (\<exists>iqs now iq ext. (iqs, now) \<in> set callSchedule \<and> iq \<in> set iqs
            \<and> iq_subtype iq = IqResult \<and> iq_RpcResponse iq = Some ext \<and> IsValid ext
            \<and> out = (if IsSuccess ext then Returns (GetResult ext)
                      else Throws (Error (GetErrorCode ext) (GetErrorMessage ext)
                                     (GetErrorData ext))))"
    by (rule ForwardMethod_outcomes)
next
  assume "(HasFullServerJid im
         \<or> (\<exists>w\<in>set pingSchedule. (case ongoingPing im of
                                       None \<Rightarrow> pingNow + client_timeout im
                                     | Some ping \<Rightarrow> endTime ping) \<le> snd (snd w)))
        \<and> (\<exists>w\<in>set callSchedule. callNow + client_timeout im \<le> snd w)"
  then show "\<exists>out im'. ForwardMethod im meth params pingNow pingSchedule callNow callSchedule
                   = Some (out, im')"
    using ForwardMethod_terminates by blast
next
  show "timeout (Client_new srv) = DEFAULT_TIMEOUT" by (simp add: Client_new_def)
next
  show "DEFAULT_TIMEOUT = 3000" by (simp add: DEFAULT_TIMEOUT_def)
qed

theorem transport_failures_internal_error_witness:
  "ForwardMethod
     \<lparr>client_serverJid = ''gsp@chat.example'', client_timeout = 3000,
      fullServerJid = \<lparr>username = ''gsp'', server = ''chat.example'', resource = []\<rparr>,
      subscribeCalls = [], ongoingPing = None, states = [], pubsub = None, sent = []\<rparr>
     ''echo'' JNull 0 [(0, [], 3000)] 3000 []
   = Some (Throws (Error (- 32603) ''could not discover full server JID for gsp@chat.example''
                     JNull),
           \<lparr>client_serverJid = ''gsp@chat.example'', client_timeout = 3000,
            fullServerJid = \<lparr>username = ''gsp'', server = ''chat.example'', resource = []\<rparr>,
            subscribeCalls = [], ongoingPing = None, states = [], pubsub = None,
            sent = [PingMessageTo ''gsp@chat.example'']\<rparr>)
   \<and> ForwardMethod
     \<lparr>client_serverJid = ''gsp@chat.example'', client_timeout = 3000,
      fullServerJid = \<lparr>username = ''gsp'', server = ''chat.example'', resource = []\<rparr>,
      subscribeCalls = [], ongoingPing = None, states = [], pubsub = None, sent = []\<rparr>
     ''echo'' JNull 0
     [(0, [\<lparr>p_subtype = Available,
            p_from = \<lparr>username = ''gsp'', server = ''chat.example'', resource = ''r1''\<rparr>,
            p_PongMessage = True, p_SupportedNotifications = None\<rparr>], 100)]
     200 [([], 300), ([], 3200)]
   = Some (Throws (Error (- 32603) ''timeout waiting for result from gsp@chat.example/r1''
                     JNull),
           \<lparr>client_serverJid = ''gsp@chat.example'', client_timeout = 3000,
            fullServerJid = \<lparr>username = ''gsp'', server = ''chat.example'', resource = ''r1''\<rparr>,
            subscribeCalls = [], ongoingPing = None, states = [], pubsub = None,
            sent = [PingMessageTo ''gsp@chat.example'',
                    PresenceAvailableTo
                      \<lparr>username = ''gsp'', server = ''chat.example'', resource = ''r1''\<rparr>,
                    IqGetTo \<lparr>username = ''gsp'', server = ''chat.example'', resource = ''r1''\<rparr>
                      ''echo'' JNull]\<rparr>)"
proof -
  let ?r1 = "\<lparr>username = ''gsp'', server = ''chat.example'', resource = ''r1''\<rparr>"
  let ?bare = "\<lparr>client_serverJid = ''gsp@chat.example'', client_timeout = 3000,
      fullServerJid = \<lparr>username = ''gsp'', server = ''chat.example'', resource = []\<rparr>,
      subscribeCalls = [], ongoingPing = None, states = [], pubsub = None, sent = []\<rparr>"
  let ?p = "\<lparr>p_subtype = Available, p_from = ?r1, p_PongMessage = True,
            p_SupportedNotifications = None\<rparr>"
  let ?im1 = "?bare\<lparr>fullServerJid := ?r1,
                     sent := [PingMessageTo ''gsp@chat.example'', PresenceAvailableTo ?r1]\<rparr>"
  have a: "TryEnsureFullServerJid ?bare 0 [(0, [], 3000)] =
      Some (Inr (?bare\<lparr>sent := [PingMessageTo ''gsp@chat.example'']\<rparr>))
    \<and> \<not> HasFullServerJid (?bare\<lparr>sent := [PingMessageTo ''gsp@chat.example'']\<rparr>)"
    by (simp add: TryEnsureFullServerJid_def HasFullServerJid_def Let_def
          TimedConditionVariable_new_def IsTimedOut_def)
  have b: "TryEnsureFullServerJid ?bare 0 [(0, [?p], 100)] = Some (Inr ?im1)
    \<and> HasFullServerJid ?im1
    \<and> (\<forall>w\<in>set [([], 300), ([], 3200)]. \<forall>q\<in>set (fst w).
              \<not> (iq_subtype q = IqError \<and> iq_error q = Some StanzaErrorServiceUnavailable)
              \<and> (iq_subtype q \<noteq> IqResult \<or> iq_RpcResponse q = None
                  \<or> (\<exists>e. iq_RpcResponse q = Some e \<and> \<not> IsValid e)))"
    by (simp add: TryEnsureFullServerJid_def HasFullServerJid_def Let_def handlePresence_def
          TimedConditionVariable_new_def IsTimedOut_def)
  from transport_failures_internal_error
         [where im = ?bare and pingNow = 0 and pingSchedule = "[(0, [], 3000)]"
            and ?im1.0 = "?bare\<lparr>sent := [PingMessageTo ''gsp@chat.example'']\<rparr>"
            and meth = "''echo''" and params = JNull and callNow = 3000
            and callSchedule = "[]", THEN conjunct1, rule_format, OF a]
       transport_failures_internal_error
         [where im = ?bare and pingNow = 0 and pingSchedule = "[(0, [?p], 100)]"
            and ?im1.0 = ?im1
            and meth = "''echo''" and params = JNull and callNow = 200
            and callSchedule = "[([], 300), ([], 3200)]",
          THEN conjunct2, THEN conjunct2, THEN conjunct1, rule_format, OF b]
  show ?thesis
    by (simp add: ERROR_RPC_INTERNAL_ERROR_def full_def bare_def)
qed

text \<open>
  C3 as stated fails: a service-unavailable error stanza has no \<^verbatim>\<open>RpcResponse\<close>
  extension, yet the handler sets the waiting call to \<^verbatim>\<open>UNAVAILABLE\<close>, notifies the
  waiting thread, and the caller gets the error "selected server is unavailable".
\<close>

theorem service_unavailable_without_extension_resolves_call:
  "iq_RpcResponse \<lparr>iq_subtype = IqError, iq_error = Some StanzaErrorServiceUnavailable,
                   iq_from = \<lparr>username = ''gsp'', server = ''chat.example'', resource = ''r1''\<rparr>,
                   iq_RpcResponse = None\<rparr> = None
   \<and> handleIqID (OngoingRpcCall_new 0 3000)
        \<lparr>iq_subtype = IqError, iq_error = Some StanzaErrorServiceUnavailable,
         iq_from = \<lparr>username = ''gsp'', server = ''chat.example'', resource = ''r1''\<rparr>,
         iq_RpcResponse = None\<rparr>
       = ((OngoingRpcCall_new 0 3000)\<lparr>state := UNAVAILABLE\<rparr>, True)
   \<and> handleIqID (OngoingRpcCall_new 0 3000)
        \<lparr>iq_subtype = IqError, iq_error = Some StanzaErrorServiceUnavailable,
         iq_from = \<lparr>username = ''gsp'', server = ''chat.example'', resource = ''r1''\<rparr>,
         iq_RpcResponse = None\<rparr>
       \<noteq> (OngoingRpcCall_new 0 3000, False)
   \<and> callWait (OngoingRpcCall_new 0 3000)
        [([\<lparr>iq_subtype = IqError, iq_error = Some StanzaErrorServiceUnavailable,
            iq_from = \<lparr>username = ''gsp'', server = ''chat.example'', resource = ''r1''\<rparr>,
            iq_RpcResponse = None\<rparr>], 1)]
       = Some (Throws (Error (- 32603) ''selected server is unavailable'' JNull))"
  by (simp add: handleIqID_def OngoingRpcCall_new_def Error2_def ERROR_RPC_INTERNAL_ERROR_def)

text \<open>
  C3, amended. If the call is no longer waiting, or the IQ is not a service-unavailable
  error and its subtype is not Result, or it has no \<^verbatim>\<open>RpcResponse\<close> extension, or the
  extension is invalid, then the handler leaves the call as it is and does not notify.
  A waiting call that receives only such IQs ends by its own timeout, and not before.
\<close>

theorem ignored_responses_leave_call_waiting:
  "(state call \<noteq> WAITING
      \<or> (\<not> (iq_subtype iq = IqError \<and> iq_error iq = Some StanzaErrorServiceUnavailable)
          \<and> (iq_subtype iq \<noteq> IqResult \<or> iq_RpcResponse iq = None
              \<or> (\<exists>ext. iq_RpcResponse iq = Some ext \<and> \<not> IsValid ext)))
     \<longrightarrow> handleIqID call iq = (call, False))
   \<and> (state call = WAITING
        \<and> (\<forall>w\<in>set sched. \<forall>iq\<in>set (fst w).
              \<not> (iq_subtype iq = IqError \<and> iq_error iq = Some StanzaErrorServiceUnavailable)
              \<and> (iq_subtype iq \<noteq> IqResult \<or> iq_RpcResponse iq = None
                  \<or> (\<exists>ext. iq_RpcResponse iq = Some ext \<and> \<not> IsValid ext)))
     \<longrightarrow> callWait call sched =
           (if \<exists>w\<in>set sched. endTime (cv call) \<le> snd w
            then Some (Throws (Error ERROR_RPC_INTERNAL_ERROR
                                 (''timeout waiting for result from ''
                                    @ full (call_serverJid call)) JNull))
            else None))"
  using handleIqID_ignored[of call iq] callWait_ignored[of call sched] by blast

theorem ignored_responses_leave_call_waiting_witness:
  "handleIqID (OngoingRpcCall_new 0 3000)
     \<lparr>iq_subtype = IqResult, iq_error = None,
      iq_from = \<lparr>username = ''gsp'', server = ''chat.example'', resource = ''r1''\<rparr>,
      iq_RpcResponse = None\<rparr>
    = (OngoingRpcCall_new 0 3000, False)
   \<and> callWait (OngoingRpcCall_new 0 3000)
       [([\<lparr>iq_subtype = IqResult, iq_error = None,
           iq_from = \<lparr>username = ''gsp'', server = ''chat.example'', resource = ''r1''\<rparr>,
           iq_RpcResponse = Some \<lparr>IsValid = False, IsSuccess = True, GetResult = JInt 1,
                                  GetErrorCode = 0, GetErrorMessage = [],
                                  GetErrorData = JNull\<rparr>\<rparr>], 5),
        ([], 3000)]
    = Some (Throws (Error (- 32603) ''timeout waiting for result from '' JNull))"
proof -
  have w: "state (OngoingRpcCall_new 0 3000) = WAITING" by (simp add: OngoingRpcCall_new_def)
  from ignored_responses_leave_call_waiting
         [where call = "OngoingRpcCall_new 0 3000"
            and iq = "\<lparr>iq_subtype = IqResult, iq_error = None,
      iq_from = \<lparr>username = ''gsp'', server = ''chat.example'', resource = ''r1''\<rparr>,
      iq_RpcResponse = None\<rparr>"
            and sched = "[([\<lparr>iq_subtype = IqResult, iq_error = None,
           iq_from = \<lparr>username = ''gsp'', server = ''chat.example'', resource = ''r1''\<rparr>,
           iq_RpcResponse = Some \<lparr>IsValid = False, IsSuccess = True, GetResult = JInt 1,
                                  GetErrorCode = 0, GetErrorMessage = [],
                                  GetErrorData = JNull\<rparr>\<rparr>], 5),
        ([], 3000)]"]
  show ?thesis using w
    by (simp add: ERROR_RPC_INTERNAL_ERROR_def full_def bare_def OngoingRpcCall_new_def
          TimedConditionVariable_new_def emptyJID_def)
qed

text \<open>
  C4. Peer selection is first-responder-wins: once the full server address has a
  resource, handling any sequence of Available presences leaves the client state, and
  so the selected address, unchanged; an accepted Available presence sets the address
  only when none is selected, and later Available presences do not override it.
\<close>

theorem first_responder_wins:
  "(HasFullServerJid im \<and> (\<forall>q\<in>set ps. p_subtype q = Available)
      \<longrightarrow> handlePresences im ps = Inr im)
   \<and> (\<not> HasFullServerJid im \<and> p_subtype p = Available \<and> p_PongMessage p
        \<and> supportsAll (p_SupportedNotifications p) (states im) \<and> resource (p_from p) \<noteq> []
        \<and> (\<forall>q\<in>set ps. p_subtype q = Available)
      \<longrightarrow> (\<exists>im'. handlePresences im (p # ps) = Inr im' \<and> fullServerJid im' = p_from p))"
proof (intro conjI impI)
  assume "HasFullServerJid im \<and> (\<forall>q\<in>set ps. p_subtype q = Available)"
  then show "handlePresences im ps = Inr im"
    using handlePresences_selected_Available by blast
next
  assume a: "\<not> HasFullServerJid im \<and> p_subtype p = Available \<and> p_PongMessage p
        \<and> supportsAll (p_SupportedNotifications p) (states im) \<and> resource (p_from p) \<noteq> []
        \<and> (\<forall>q\<in>set ps. p_subtype q = Available)"
  then obtain im1 n where h: "handlePresence im p = Inr (im1, n)"
    and f: "fullServerJid im1 = p_from p"
    using handlePresence_accepts[of im p] by blast
  from f a have "HasFullServerJid im1" by (simp add: HasFullServerJid_def)
  with a have "handlePresences im1 ps = Inr im1"
    using handlePresences_selected_Available by blast
  with h f show "\<exists>im'. handlePresences im (p # ps) = Inr im' \<and> fullServerJid im' = p_from p"
    by simp
qed

theorem first_responder_wins_witness:
  "handlePresences
     \<lparr>client_serverJid = ''gsp@chat.example'', client_timeout = 3000,
      fullServerJid = \<lparr>username = ''gsp'', server = ''chat.example'', resource = []\<rparr>,
      subscribeCalls = [], ongoingPing = None, states = [], pubsub = None, sent = []\<rparr>
     [\<lparr>p_subtype = Available,
       p_from = \<lparr>username = ''gsp'', server = ''chat.example'', resource = ''r1''\<rparr>,
       p_PongMessage = True, p_SupportedNotifications = None\<rparr>,
      \<lparr>p_subtype = Available,
       p_from = \<lparr>username = ''gsp'', server = ''chat.example'', resource = ''r2''\<rparr>,
       p_PongMessage = True, p_SupportedNotifications = None\<rparr>]
   = Inr \<lparr>client_serverJid = ''gsp@chat.example'', client_timeout = 3000,
          fullServerJid = \<lparr>username = ''gsp'', server = ''chat.example'', resource = ''r1''\<rparr>,
          subscribeCalls = [], ongoingPing = None, states = [], pubsub = None,
          sent = [PresenceAvailableTo
                    \<lparr>username = ''gsp'', server = ''chat.example'', resource = ''r1''\<rparr>]\<rparr>"
proof -
  let ?p1 = "\<lparr>p_subtype = Available,
       p_from = \<lparr>username = ''gsp'', server = ''chat.example'', resource = ''r1''\<rparr>,
       p_PongMessage = True, p_SupportedNotifications = None\<rparr>"
  let ?p2 = "\<lparr>p_subtype = Available,
       p_from = \<lparr>username = ''gsp'', server = ''chat.example'', resource = ''r2''\<rparr>,
       p_PongMessage = True, p_SupportedNotifications = None\<rparr>"
  let ?im = "\<lparr>client_serverJid = ''gsp@chat.example'', client_timeout = 3000,
      fullServerJid = \<lparr>username = ''gsp'', server = ''chat.example'', resource = []\<rparr>,
      subscribeCalls = [], ongoingPing = None, states = [], pubsub = None, sent = []\<rparr>"
  let ?im1 = "?im\<lparr>fullServerJid := p_from ?p1, sent := [PresenceAvailableTo (p_from ?p1)]\<rparr>"
  have s: "handlePresence ?im ?p1 = Inr (?im1, False)"
    by (simp add: handlePresence_def HasFullServerJid_def)
  have "HasFullServerJid ?im1 \<and> (\<forall>q\<in>set [?p2]. p_subtype q = Available)"
    by (simp add: HasFullServerJid_def)
  from first_responder_wins[where im = ?im1 and ps = "[?p2]", THEN conjunct1, rule_format, OF this]
  have "handlePresences ?im1 [?p2] = Inr ?im1" .
  with s show ?thesis by simp
qed

text \<open>
  C5. Feature-parity rejection: when the client has at least one notification state and
  an Available presence with a Pong has no Supported-Notifications extension, or its
  notifications map lacks one of the client's type names, the handler returns with the
  client state unchanged and without notifying: the sender is not selected.
\<close>

theorem feature_parity_rejection:
  "p_subtype p = Available \<and> p_PongMessage p \<and> states im \<noteq> []
     \<and> (p_SupportedNotifications p = None
         \<or> (\<exists>sn. p_SupportedNotifications p = Some sn
               \<and> (\<exists>entry\<in>set (states im). GetNotifications sn (fst entry) = None)))
   \<longrightarrow> handlePresence im p = Inr (im, False)"
proof
  assume a: "p_subtype p = Available \<and> p_PongMessage p \<and> states im \<noteq> []
     \<and> (p_SupportedNotifications p = None
         \<or> (\<exists>sn. p_SupportedNotifications p = Some sn
               \<and> (\<exists>entry\<in>set (states im). GetNotifications sn (fst entry) = None)))"
  have "\<not> supportsAll (p_SupportedNotifications p) (states im)"
  proof (cases "p_SupportedNotifications p")
    case None
    with a show ?thesis using supportsAll_None by auto
  next
    case (Some sn)
    with a show ?thesis by (auto simp: supportsAll_iff)
  qed
  with a show "handlePresence im p = Inr (im, False)" by (simp add: handlePresence_def)
qed

theorem feature_parity_rejection_witness:
  "handlePresence
     \<lparr>client_serverJid = ''gsp@chat.example'', client_timeout = 3000,
      fullServerJid = \<lparr>username = ''gsp'', server = ''chat.example'', resource = []\<rparr>,
      subscribeCalls = [], ongoingPing = None,
      states = [(''state'', NotificationState_new \<lparr>GetType = ''state'', ExtractStateId = id\<rparr>)],
      pubsub = None, sent = []\<rparr>
     \<lparr>p_subtype = Available,
      p_from = \<lparr>username = ''gsp'', server = ''chat.example'', resource = ''r1''\<rparr>,
      p_PongMessage = True,
      p_SupportedNotifications =
        Some \<lparr>GetService = ''pubsub.chat.example'', GetNotifications = [''pending'' \<mapsto> ''node1'']\<rparr>\<rparr>
   = Inr (\<lparr>client_serverJid = ''gsp@chat.example'', client_timeout = 3000,
      fullServerJid = \<lparr>username = ''gsp'', server = ''chat.example'', resource = []\<rparr>,
      subscribeCalls = [], ongoingPing = None,
      states = [(''state'', NotificationState_new \<lparr>GetType = ''state'', ExtractStateId = id\<rparr>)],
      pubsub = None, sent = []\<rparr>, False)"
  using feature_parity_rejection
    [where im = "\<lparr>client_serverJid = ''gsp@chat.example'', client_timeout = 3000,
      fullServerJid = \<lparr>username = ''gsp'', server = ''chat.example'', resource = []\<rparr>,
      subscribeCalls = [], ongoingPing = None,
      states = [(''state'', NotificationState_new \<lparr>GetType = ''state'', ExtractStateId = id\<rparr>)],
      pubsub = None, sent = []\<rparr>"
      and p = "\<lparr>p_subtype = Available,
      p_from = \<lparr>username = ''gsp'', server = ''chat.example'', resource = ''r1''\<rparr>,
      p_PongMessage = True,
      p_SupportedNotifications =
        Some \<lparr>GetService = ''pubsub.chat.example'', GetNotifications = [''pending'' \<mapsto> ''node1'']\<rparr>\<rparr>"]
  by simp

text \<open>
  C6. When a state has been received and the state id extracted from the current state
  differs from the known id, \<^verbatim>\<open>WaitForChange\<close> returns the current state without
  waiting. Otherwise it waits with the bound of 5000 ms and returns the state as it is
  after the wait: the state unchanged when no update arrived. It returns a value in
  every case.
\<close>

theorem WaitForChange_immediate_or_wait:
  "(hasState ns \<and> ExtractStateId (notification ns) (ns_state ns) \<noteq> known
      \<longrightarrow> NotificationState_WaitForChange ns known during = (NoWait, ns_state ns, ns))
   \<and> (\<not> (hasState ns \<and> ExtractStateId (notification ns) (ns_state ns) \<noteq> known)
      \<longrightarrow> NotificationState_WaitForChange ns known during
            = (WaitFor 5000, ns_state (ItemCallbacks ns during), ItemCallbacks ns during)
          \<and> NotificationState_WaitForChange ns known [] = (WaitFor 5000, ns_state ns, ns))"
  by (auto simp: NotificationState_WaitForChange_def WAITFORCHANGE_TIMEOUT_def Let_def)

theorem WaitForChange_immediate_or_wait_witness:
  "NotificationState_WaitForChange
     \<lparr>notification = \<lparr>GetType = ''state'', ExtractStateId = id\<rparr>, hasState = True,
      ns_state = JInt 5\<rparr> (JInt 4) []
   = (NoWait, JInt 5,
      \<lparr>notification = \<lparr>GetType = ''state'', ExtractStateId = id\<rparr>, hasState = True,
       ns_state = JInt 5\<rparr>)
   \<and> NotificationState_WaitForChange
     \<lparr>notification = \<lparr>GetType = ''state'', ExtractStateId = id\<rparr>, hasState = True,
      ns_state = JInt 5\<rparr> (JInt 5) []
   = (WaitFor 5000, JInt 5,
      \<lparr>notification = \<lparr>GetType = ''state'', ExtractStateId = id\<rparr>, hasState = True,
       ns_state = JInt 5\<rparr>)"
  using WaitForChange_immediate_or_wait
     [where ns = "\<lparr>notification = \<lparr>GetType = ''state'', ExtractStateId = id\<rparr>, hasState = True,
      ns_state = JInt 5\<rparr>" and known = "JInt 4" and during = "[]"]
    WaitForChange_immediate_or_wait
     [where ns = "\<lparr>notification = \<lparr>GetType = ''state'', ExtractStateId = id\<rparr>, hasState = True,
      ns_state = JInt 5\<rparr>" and known = "JInt 5" and during = "[]"]
  by simp

text \<open>
  C7 as stated fails: while a ping of another caller is still in flight, a peer is
  selected and then becomes Unavailable; the address is reset to its bare form, but the
  next \<^verbatim>\<open>ForwardMethod\<close> joins the ping in flight, sends no new ping, and fails with
  "could not discover full server JID" when that ping times out.
\<close>

theorem rediscovery_joins_ping_in_flight:
  "handlePresence
     \<lparr>client_serverJid = ''gsp@chat.example'', client_timeout = 3000,
      fullServerJid = \<lparr>username = ''gsp'', server = ''chat.example'', resource = []\<rparr>,
      subscribeCalls = [], ongoingPing = Some \<lparr>endTime = 3000\<rparr>, states = [], pubsub = None,
      sent = [PingMessageTo ''gsp@chat.example'']\<rparr>
     \<lparr>p_subtype = Available,
      p_from = \<lparr>username = ''gsp'', server = ''chat.example'', resource = ''r1''\<rparr>,
      p_PongMessage = True, p_SupportedNotifications = None\<rparr>
   = Inr (\<lparr>client_serverJid = ''gsp@chat.example'', client_timeout = 3000,
      fullServerJid = \<lparr>username = ''gsp'', server = ''chat.example'', resource = ''r1''\<rparr>,
      subscribeCalls = [], ongoingPing = Some \<lparr>endTime = 3000\<rparr>, states = [], pubsub = None,
      sent = [PingMessageTo ''gsp@chat.example'',
              PresenceAvailableTo
                \<lparr>username = ''gsp'', server = ''chat.example'', resource = ''r1''\<rparr>]\<rparr>, True)
   \<and> handlePresence
     \<lparr>client_serverJid = ''gsp@chat.example'', client_timeout = 3000,
      fullServerJid = \<lparr>username = ''gsp'', server = ''chat.example'', resource = ''r1''\<rparr>,
      subscribeCalls = [], ongoingPing = Some \<lparr>endTime = 3000\<rparr>, states = [], pubsub = None,
      sent = [PingMessageTo ''gsp@chat.example'',
              PresenceAvailableTo
                \<lparr>username = ''gsp'', server = ''chat.example'', resource = ''r1''\<rparr>]\<rparr>
     \<lparr>p_subtype = Unavailable,
      p_from = \<lparr>username = ''gsp'', server = ''chat.example'', resource = ''r1''\<rparr>,
      p_PongMessage = False, p_SupportedNotifications = None\<rparr>
   = Inr (\<lparr>client_serverJid = ''gsp@chat.example'', client_timeout = 3000,
      fullServerJid = \<lparr>username = ''gsp'', server = ''chat.example'', resource = []\<rparr>,
      subscribeCalls = [], ongoingPing = Some \<lparr>endTime = 3000\<rparr>, states = [], pubsub = None,
      sent = [PingMessageTo ''gsp@chat.example'',
              PresenceAvailableTo
                \<lparr>username = ''gsp'', server = ''chat.example'', resource = ''r1''\<rparr>]\<rparr>, False)
   \<and> ForwardMethod
     \<lparr>client_serverJid = ''gsp@chat.example'', client_timeout = 3000,
      fullServerJid = \<lparr>username = ''gsp'', server = ''chat.example'', resource = []\<rparr>,
      subscribeCalls = [], ongoingPing = Some \<lparr>endTime = 3000\<rparr>, states = [], pubsub = None,
      sent = [PingMessageTo ''gsp@chat.example'',
              PresenceAvailableTo
                \<lparr>username = ''gsp'', server = ''chat.example'', resource = ''r1''\<rparr>]\<rparr>
     ''echo'' JNull 500 [(500, [], 3000)] 3000 []
   = Some (Throws (Error (- 32603) ''could not discover full server JID for gsp@chat.example''
                     JNull),
           \<lparr>client_serverJid = ''gsp@chat.example'', client_timeout = 3000,
            fullServerJid = \<lparr>username = ''gsp'', server = ''chat.example'', resource = []\<rparr>,
            subscribeCalls = [], ongoingPing = Some \<lparr>endTime = 3000\<rparr>, states = [],
            pubsub = None,
            sent = [PingMessageTo ''gsp@chat.example'',
                    PresenceAvailableTo
                      \<lparr>username = ''gsp'', server = ''chat.example'', resource = ''r1''\<rparr>]\<rparr>)"
  by (simp add: handlePresence_def HasFullServerJid_def JID_eq_def bareJID_def
        ForwardMethod_def TryEnsureFullServerJid_def IsTimedOut_def Error2_def
        ERROR_RPC_INTERNAL_ERROR_def)

text \<open>
  C7, amended. An Unavailable presence whose sender equals the selected full server
  address resets that address to its bare form, which has no resource; the next
  operation that needs a full address then does not return from the discovery at once
  but waits for a ping: when no ping is in flight, \<^verbatim>\<open>ForwardMethod\<close> first sends a new
  ping to the server, and when one is in flight the discovery joins the wait for it.
  An Unavailable presence from any other sender leaves the client state unchanged.
\<close>

theorem unavailable_resets_selection:
  "(p_subtype p = Unavailable \<and> JID_eq (p_from p) (fullServerJid im) \<longrightarrow>
      handlePresence im p = Inr (im\<lparr>fullServerJid := bareJID (fullServerJid im)\<rparr>, False)
      \<and> resource (bareJID (fullServerJid im)) = []
      \<and> \<not> HasFullServerJid (im\<lparr>fullServerJid := bareJID (fullServerJid im)\<rparr>)
      \<and> TryEnsureFullServerJid (im\<lparr>fullServerJid := bareJID (fullServerJid im)\<rparr>) now [] = None
      \<and> (ongoingPing im = None
           \<and> ForwardMethod (im\<lparr>fullServerJid := bareJID (fullServerJid im)\<rparr>) meth params
                now pingSchedule callNow callSchedule = Some (out, im')
          \<longrightarrow> (\<exists>xs. sent im' = sent im @ PingMessageTo (client_serverJid im) # xs))
      \<and> (ongoingPing im = Some ping
          \<longrightarrow> TryEnsureFullServerJid (im\<lparr>fullServerJid := bareJID (fullServerJid im)\<rparr>)
                now pingSchedule
              = pingWait ping (im\<lparr>fullServerJid := bareJID (fullServerJid im)\<rparr>) pingSchedule))
   \<and> (p_subtype p = Unavailable \<and> \<not> JID_eq (p_from p) (fullServerJid im) \<longrightarrow>
      handlePresence im p = Inr (im, False))"
proof (intro conjI impI)
  assume "p_subtype p = Unavailable \<and> JID_eq (p_from p) (fullServerJid im)"
  then show "handlePresence im p = Inr (im\<lparr>fullServerJid := bareJID (fullServerJid im)\<rparr>, False)"
    by (simp add: handlePresence_def)
next
  show "resource (bareJID (fullServerJid im)) = []" by (simp add: bareJID_def)
next
  show "\<not> HasFullServerJid (im\<lparr>fullServerJid := bareJID (fullServerJid im)\<rparr>)"
    by (simp add: HasFullServerJid_def bareJID_def)
next
  show "TryEnsureFullServerJid (im\<lparr>fullServerJid := bareJID (fullServerJid im)\<rparr>) now [] = None"
    by (simp add: TryEnsureFullServerJid_def HasFullServerJid_def bareJID_def Let_def
          split: option.splits)
next
  assume a: "ongoingPing im = None
           \<and> ForwardMethod (im\<lparr>fullServerJid := bareJID (fullServerJid im)\<rparr>) meth params
                now pingSchedule callNow callSchedule = Some (out, im')"
  have "\<not> HasFullServerJid (im\<lparr>fullServerJid := bareJID (fullServerJid im)\<rparr>)"
    by (simp add: HasFullServerJid_def bareJID_def)
  moreover have "ongoingPing (im\<lparr>fullServerJid := bareJID (fullServerJid im)\<rparr>) = None"
    using a by simp
  ultimately have "\<exists>xs. sent im' = sent (im\<lparr>fullServerJid := bareJID (fullServerJid im)\<rparr>)
      @ PingMessageTo (client_serverJid (im\<lparr>fullServerJid := bareJID (fullServerJid im)\<rparr>)) # xs"
    using a by (intro ForwardMethod_sends_ping) blast+
  then show "\<exists>xs. sent im' = sent im @ PingMessageTo (client_serverJid im) # xs" by simp
next
  assume "ongoingPing im = Some ping"
  then show "TryEnsureFullServerJid (im\<lparr>fullServerJid := bareJID (fullServerJid im)\<rparr>)
                now pingSchedule
              = pingWait ping (im\<lparr>fullServerJid := bareJID (fullServerJid im)\<rparr>) pingSchedule"
    by (simp add: TryEnsureFullServerJid_def HasFullServerJid_def bareJID_def)
next
  assume "p_subtype p = Unavailable \<and> \<not> JID_eq (p_from p) (fullServerJid im)"
  then show "handlePresence im p = Inr (im, False)" by (simp add: handlePresence_def)
qed

theorem unavailable_resets_selection_witness:
  "handlePresence
     \<lparr>client_serverJid = ''gsp@chat.example'', client_timeout = 3000,
      fullServerJid = \<lparr>username = ''gsp'', server = ''chat.example'', resource = ''r1''\<rparr>,
      subscribeCalls = [], ongoingPing = None, states = [], pubsub = None, sent = []\<rparr>
     \<lparr>p_subtype = Unavailable,
      p_from = \<lparr>username = ''gsp'', server = ''chat.example'', resource = ''r1''\<rparr>,
      p_PongMessage = False, p_SupportedNotifications = None\<rparr>
   = Inr (\<lparr>client_serverJid = ''gsp@chat.example'', client_timeout = 3000,
      fullServerJid = \<lparr>username = ''gsp'', server = ''chat.example'', resource = []\<rparr>,
      subscribeCalls = [], ongoingPing = None, states = [], pubsub = None, sent = []\<rparr>, False)
   \<and> handlePresence
     \<lparr>client_serverJid = ''gsp@chat.example'', client_timeout = 3000,
      fullServerJid = \<lparr>username = ''gsp'', server = ''chat.example'', resource = ''r1''\<rparr>,
      subscribeCalls = [], ongoingPing = None, states = [], pubsub = None, sent = []\<rparr>
     \<lparr>p_subtype = Unavailable,
      p_from = \<lparr>username = ''gsp'', server = ''chat.example'', resource = ''r2''\<rparr>,
      p_PongMessage = False, p_SupportedNotifications = None\<rparr>
   = Inr (\<lparr>client_serverJid = ''gsp@chat.example'', client_timeout = 3000,
      fullServerJid = \<lparr>username = ''gsp'', server = ''chat.example'', resource = ''r1''\<rparr>,
      subscribeCalls = [], ongoingPing = None, states = [], pubsub = None, sent = []\<rparr>, False)
   \<and> ForwardMethod
         \<lparr>client_serverJid = ''gsp@chat.example'', client_timeout = 3000,
          fullServerJid = \<lparr>username = ''gsp'', server = ''chat.example'', resource = []\<rparr>,
          subscribeCalls = [], ongoingPing = None, states = [], pubsub = None, sent = []\<rparr>
         ''echo'' JNull 0 [(0, [], 3000)] 3000 []
       = Some (Throws (Error (- 32603) ''could not discover full server JID for gsp@chat.example''
                         JNull),
               \<lparr>client_serverJid = ''gsp@chat.example'', client_timeout = 3000,
                fullServerJid = \<lparr>username = ''gsp'', server = ''chat.example'', resource = []\<rparr>,
                subscribeCalls = [], ongoingPing = None, states = [], pubsub = None,
                sent = [PingMessageTo ''gsp@chat.example'']\<rparr>)"
proof -
  let ?im = "\<lparr>client_serverJid = ''gsp@chat.example'', client_timeout = 3000,
      fullServerJid = \<lparr>username = ''gsp'', server = ''chat.example'', resource = ''r1''\<rparr>,
      subscribeCalls = [], ongoingPing = None, states = [], pubsub = None, sent = []\<rparr>"
  let ?p1 = "\<lparr>p_subtype = Unavailable,
      p_from = \<lparr>username = ''gsp'', server = ''chat.example'', resource = ''r1''\<rparr>,
      p_PongMessage = False, p_SupportedNotifications = None\<rparr>"
  let ?p2 = "\<lparr>p_subtype = Unavailable,
      p_from = \<lparr>username = ''gsp'', server = ''chat.example'', resource = ''r2''\<rparr>,
      p_PongMessage = False, p_SupportedNotifications = None\<rparr>"
  let ?im1 = "?im\<lparr>fullServerJid := bareJID (fullServerJid ?im)\<rparr>"
  let ?out = "Throws (Error (- 32603) ''could not discover full server JID for gsp@chat.example''
                     JNull)"
  have h1: "p_subtype ?p1 = Unavailable \<and> JID_eq (p_from ?p1) (fullServerJid ?im)"
    by (simp add: JID_eq_def)
  have h2: "p_subtype ?p2 = Unavailable \<and> \<not> JID_eq (p_from ?p2) (fullServerJid ?im)"
    by (simp add: JID_eq_def full_def bare_def)
  have f: "ForwardMethod ?im1 ''echo'' JNull 0 [(0, [], 3000)] 3000 []
      = Some (?out, ?im1\<lparr>sent := [PingMessageTo ''gsp@chat.example'']\<rparr>)"
    by (simp add: ForwardMethod_def TryEnsureFullServerJid_def HasFullServerJid_def Let_def
          TimedConditionVariable_new_def IsTimedOut_def bareJID_def Error2_def
          ERROR_RPC_INTERNAL_ERROR_def)
  then have h3: "ongoingPing ?im = None
           \<and> ForwardMethod ?im1 ''echo'' JNull 0 [(0, [], 3000)] 3000 []
               = Some (?out, ?im1\<lparr>sent := [PingMessageTo ''gsp@chat.example'']\<rparr>)"
    by simp
  note t = unavailable_resets_selection
             [where im = ?im and p = ?p1 and meth = "''echo''" and params = JNull and now = 0
                and pingSchedule = "[(0, [], 3000)]" and callNow = 3000 and callSchedule = "[]"
                and out = ?out and im' = "?im1\<lparr>sent := [PingMessageTo ''gsp@chat.example'']\<rparr>",
              THEN conjunct1, rule_format, OF h1]
  note u = unavailable_resets_selection[where im = ?im and p = ?p2, THEN conjunct2, rule_format, OF h2]
  from t have a: "handlePresence ?im ?p1 = Inr (?im1, False)" by blast
  from t h3 have b: "\<exists>xs. sent (?im1\<lparr>sent := [PingMessageTo ''gsp@chat.example'']\<rparr>)
      = sent ?im @ PingMessageTo (client_serverJid ?im) # xs" by blast
  from a u b f show ?thesis by (simp add: bareJID_def)
qed

text \<open>
  C8. \<^verbatim>\<open>AddNotification\<close> aborts in exactly two cases: the implementation object
  exists, or a type of the same name is registered already. In every other case it
  succeeds and adds the type under its name.
\<close>

theorem AddNotification_rejections:
  "((\<exists>f. AddNotification c n = Inl f)
      \<longleftrightarrow> (impl c \<noteq> None \<or> notifications c (GetType n) \<noteq> None))
   \<and> (impl c = None \<and> notifications c (GetType n) = None
      \<longrightarrow> AddNotification c n = Inr (c\<lparr>notifications := (notifications c)(GetType n \<mapsto> n)\<rparr>))"
  by (auto simp: AddNotification_def Let_def)

theorem AddNotification_rejections_witness:
  "AddNotification (Client_new ''gsp@chat.example'') \<lparr>GetType = ''state'', ExtractStateId = id\<rparr>
   = Inr ((Client_new ''gsp@chat.example'')
            \<lparr>notifications := [''state'' \<mapsto> \<lparr>GetType = ''state'', ExtractStateId = id\<rparr>]\<rparr>)"
proof -
  have "impl (Client_new ''gsp@chat.example'') = None
    \<and> notifications (Client_new ''gsp@chat.example'')
        (GetType \<lparr>GetType = ''state'', ExtractStateId = id\<rparr>) = None"
    by (simp add: Client_new_def)
  from AddNotification_rejections[THEN conjunct2, rule_format, OF this]
  show ?thesis by (simp add: Client_new_def)
qed

text \<open>
  C9. \<^verbatim>\<open>Receive\<close> returns false when the receive result is "not connected" or "stream
  closed" (the loop stops), true when it is "no error" (the loop goes on), and aborts the
  process for every other result: it returns only for these three results.
\<close>

theorem Receive_classification:
  "(res = ConnNotConnected \<or> res = ConnStreamClosed \<longrightarrow>
      Receive res = Inr False \<and> recvLoop ((False, res) # rest) = Some (Inr ()))
   \<and> (res = ConnNoError \<longrightarrow>
      Receive res = Inr True \<and> recvLoop ((False, res) # rest) = recvLoop rest)
   \<and> (res \<noteq> ConnNotConnected \<and> res \<noteq> ConnStreamClosed \<and> res \<noteq> ConnNoError \<longrightarrow>
      Receive res = Inl LogFatal \<and> recvLoop ((False, res) # rest) = Some (Inl LogFatal))
   \<and> ((\<exists>b. Receive res = Inr b)
      \<longleftrightarrow> res = ConnNotConnected \<or> res = ConnStreamClosed \<or> res = ConnNoError)"
  by (cases res) (auto simp: Receive_def)

theorem Receive_classification_witness:
  "Receive ConnIoError = Inl LogFatal
   \<and> recvLoop [(False, ConnNoError), (False, ConnIoError), (False, ConnNoError)]
       = Some (Inl LogFatal)
   \<and> recvLoop [(False, ConnNoError), (False, ConnStreamClosed)] = Some (Inr ())"
  using Receive_classification[of ConnIoError "[(False, ConnNoError)]"]
    Receive_classification[of ConnNoError "[(False, ConnIoError), (False, ConnNoError)]"]
    Receive_classification[of ConnNoError "[(False, ConnStreamClosed)]"]
    Receive_classification[of ConnStreamClosed "[]"]
  by simp

text \<open>
  C10. While no update has been received for a type (\<^verbatim>\<open>hasState\<close> is false),
  \<^verbatim>\<open>WaitForChange\<close> never returns immediately, whatever the known id: it enters the
  timed wait, and when the wait ends with no update it returns the default-constructed
  null value.
\<close>

theorem WaitForChange_without_state:
  "reachable_state ns \<and> \<not> hasState ns
   \<longrightarrow> fst (NotificationState_WaitForChange ns known during) = WaitFor WAITFORCHANGE_TIMEOUT
       \<and> NotificationState_WaitForChange ns known [] = (WaitFor WAITFORCHANGE_TIMEOUT, JNull, ns)"
  using reachable_state_null[of ns]
  by (auto simp: NotificationState_WaitForChange_def Let_def)

theorem WaitForChange_without_state_witness:
  "NotificationState_WaitForChange
     (NotificationState_new \<lparr>GetType = ''state'', ExtractStateId = id\<rparr>) (JInt 4) []
   = (WaitFor 5000, JNull, NotificationState_new \<lparr>GetType = ''state'', ExtractStateId = id\<rparr>)"
proof -
  have "reachable_state (NotificationState_new \<lparr>GetType = ''state'', ExtractStateId = id\<rparr>)
    \<and> \<not> hasState (NotificationState_new \<lparr>GetType = ''state'', ExtractStateId = id\<rparr>)"
    by (simp add: reachable_new) (simp add: NotificationState_new_def)
  from WaitForChange_without_state[rule_format, OF this, of "JInt 4" "[]"]
  show ?thesis by (simp add: WAITFORCHANGE_TIMEOUT_def)
qed

end
